theory Spec2Isabelle
  imports Complex_Main "HOL-Library.Product_Lexorder"
begin

section \<open>Values of the host language\<close>

text \<open>
  A calendar date is the triple (year, month, day) and a timestamp is a date with the
  second of the day; both are compared lexicographically, as Python's \<open>date\<close> and
  \<open>datetime\<close> are. The clock has whole-second resolution.
\<close>

type_synonym date = "nat \<times> nat \<times> nat"
type_synonym datetime = "date \<times> nat"

text \<open>
  \<open>Decimal\<close> quantities are exact and modelled as rationals. A Python \<open>float\<close> is
  kept symbolic: the model records which decimal was converted and which float
  operations were applied, and never computes a binary rounding.
\<close>

datatype pyfloat =
    FloatOf rat
  | FDiv pyfloat pyfloat
  | FRound pyfloat nat

datatype pyval =
    PNone
  | PBool bool
  | PInt int
  | PFloat pyfloat
  | PStr string
  | PDate date
  | PDateTime datetime
  | PList "pyval list"
  | PDict "(string \<times> pyval) list"

datatype exn =
    IntegrityError string
  | SQLAlchemyError string
  | ZeroDivisionError string
  | PyException string
  | HTTPException nat string
  | RequestValidationError "(string \<times> string) list"

text \<open>\<open>IntegrityError\<close> is a subclass of \<open>SQLAlchemyError\<close>.\<close>

fun is_SQLAlchemyError :: "exn \<Rightarrow> bool" where
  "is_SQLAlchemyError (IntegrityError m) = True"
| "is_SQLAlchemyError (SQLAlchemyError m) = True"
| "is_SQLAlchemyError e = False"

fun is_HTTPException :: "exn \<Rightarrow> bool" where
  "is_HTTPException (HTTPException st d) = True"
| "is_HTTPException e = False"

text \<open>\<open>str(e)\<close> of an exception.\<close>

fun str_exn :: "exn \<Rightarrow> string" where
  "str_exn (IntegrityError m) = m"
| "str_exn (SQLAlchemyError m) = m"
| "str_exn (ZeroDivisionError m) = m"
| "str_exn (PyException m) = m"
| "str_exn (HTTPException st d) = d"
| "str_exn (RequestValidationError es) = concat (map snd es)"

subsection \<open>Formatting\<close>

definition digit_char :: "nat \<Rightarrow> char" where
  "digit_char d = ''0123456789'' ! d"

fun str_nat :: "nat \<Rightarrow> string" where
  "str_nat n = (if n < 10 then [digit_char n] else str_nat (n div 10) @ [digit_char (n mod 10)])"

declare str_nat.simps [simp del]

definition zfill :: "nat \<Rightarrow> string \<Rightarrow> string" where
  "zfill k s = replicate (k - length s) (CHR ''0'') @ s"

text \<open>\<open>date.isoformat()\<close>, also \<open>str(date)\<close>: YYYY-MM-DD.\<close>

definition isoformat :: "date \<Rightarrow> string" where
  "isoformat d = (case d of (y, m, dd) \<Rightarrow>
     zfill 4 (str_nat y) @ ''-'' @ zfill 2 (str_nat m) @ ''-'' @ zfill 2 (str_nat dd))"

text \<open>\<open>datetime.isoformat()\<close> at whole seconds: YYYY-MM-DDTHH:MM:SS.\<close>

definition isoformat_dt :: "datetime \<Rightarrow> string" where
  "isoformat_dt t = (case t of (d, s) \<Rightarrow>
     isoformat d @ ''T'' @ zfill 2 (str_nat (s div 3600)) @ '':''
       @ zfill 2 (str_nat ((s div 60) mod 60)) @ '':'' @ zfill 2 (str_nat (s mod 60)))"


text \<open>A date compared with a timestamp column is read as midnight of that date.\<close>

definition midnight :: "date \<Rightarrow> datetime" where
  "midnight d = (d, 0)"

definition is_space :: "char \<Rightarrow> bool" where
  "is_space c = (c = CHR '' '' \<or> c = CHR 0x09 \<or> c = CHR 0x0A \<or> c = CHR 0x0D
                 \<or> c = CHR 0x0B \<or> c = CHR 0x0C)"

definition strip :: "string \<Rightarrow> string" where
  "strip s = rev (dropWhile is_space (rev (dropWhile is_space s)))"

text \<open>\<open>dict.get\<close> on a dictionary literal kept in insertion order.\<close>

fun dict_get :: "pyval \<Rightarrow> string \<Rightarrow> pyval option" where
  "dict_get (PDict kvs) k = map_of kvs k"
| "dict_get v k = None"

section \<open>Persistent state (models.py)\<close>

record user =
  uid :: int
  username :: string
  password :: string
  role :: string
  user_created_at :: datetime
  user_updated_at :: datetime
  last_login_at :: "datetime option"

record eco_record =
  rec_id :: int
  rec_date :: date
  power_consumption :: rat
  drinking_water :: rat
  irrigation_water :: rat
  electricity_price :: rat
  created_by :: int
  updated_by :: "int option"
  created_at :: datetime
  updated_at :: datetime

record operation_log =
  log_id :: int
  user_id :: int
  action :: string
  table_name :: string
  record_id :: "int option"
  old_data :: "pyval option"
  new_data :: "pyval option"
  description :: "string option"
  ip_address :: "string option"
  log_created_at :: datetime

text \<open>
  The committed contents of the three tables, in insertion order, with the
  auto-increment counters of their primary keys.
\<close>

record db =
  users :: "user list"
  eco_records :: "eco_record list"
  operation_logs :: "operation_log list"
  users_seq :: int
  records_seq :: int
  logs_seq :: int

section \<open>Environment of a request\<close>

text \<open>
  Every statement sent to the database can fail. The environment names, per site, the
  exception that the statement raises (\<open>None\<close>: it succeeds). An \<open>IntegrityError\<close>
  injected at \<open>Commit\<close> is the duplicate-key race: another session committed the
  same key between this session's lookup and its commit.
\<close>

datatype site =
    UserLookup | Query nat | Commit | Refresh | Count | BulkDelete | LogWrite | LogRefresh

record jwt_payload =
  p_user_id :: "int option"
  p_username :: "string option"
  p_role :: "string option"

record env =
  fault :: "site \<Rightarrow> exn option"
  utcnow :: datetime
  db_now :: datetime
  jwt_decode :: "string \<Rightarrow> jwt_payload option"

record request =
  credentials :: string
  forwarded :: "string option"
  client_host :: string
  url_path :: string

definition no_fault :: "site \<Rightarrow> exn option" where
  "no_fault s = None"

text \<open>The same environment, except for what the two statements of the audit write do.\<close>

definition with_audit_fault :: "env \<Rightarrow> exn option \<Rightarrow> exn option \<Rightarrow> env" where
  "with_audit_fault e a b = e \<lparr> fault := (fault e)(LogWrite := a, LogRefresh := b) \<rparr>"

text \<open>\<open>query.filter(P).first()\<close> over the rows the session sees.\<close>

definition query_first :: "env \<Rightarrow> site \<Rightarrow> ('a \<Rightarrow> bool) \<Rightarrow> 'a list \<Rightarrow> exn + 'a option" where
  "query_first e s P rows = (case fault e s of Some x \<Rightarrow> Inl x | None \<Rightarrow> Inr (find P rows))"

section \<open>auth.py\<close>

definition verify_token :: "env \<Rightarrow> string \<Rightarrow> exn + (int \<times> string \<times> string)" where
  "verify_token e token =
     (case jwt_decode e token of
        None \<Rightarrow> Inl (HTTPException 401 ''Invalid token'')
      | Some payload \<Rightarrow>
          (case (p_user_id payload, p_username payload, p_role payload) of
             (Some i, Some n, Some r) \<Rightarrow> Inr (i, n, r)
           | _ \<Rightarrow> Inl (HTTPException 401 ''Invalid token'')))"

definition get_current_user :: "env \<Rightarrow> request \<Rightarrow> db \<Rightarrow> exn + user" where
  "get_current_user e req d =
     (case verify_token e (credentials req) of
        Inl x \<Rightarrow> Inl x
      | Inr token_data \<Rightarrow>
          (case query_first e UserLookup (\<lambda>u. uid u = fst token_data) (users d) of
             Inl x \<Rightarrow>
               (if is_HTTPException x then Inl x
                else if is_SQLAlchemyError x
                  then Inl (HTTPException 500 ''Database error retrieving user'')
                else Inl (HTTPException 401 ''Authentication failed''))
           | Inr None \<Rightarrow> Inl (HTTPException 401 ''User not found'')
           | Inr (Some u) \<Rightarrow> Inr u))"

definition get_current_admin_user :: "env \<Rightarrow> request \<Rightarrow> db \<Rightarrow> exn + user" where
  "get_current_admin_user e req d =
     (case get_current_user e req d of
        Inl x \<Rightarrow> Inl x
      | Inr current_user \<Rightarrow>
          (if role current_user \<noteq> ''admin''
           then Inl (HTTPException 403 ''Access denied. Admin only.'')
           else Inr current_user))"

text \<open>
  The body of \<open>log_operation\<close>'s \<open>try\<close>: the entry is added and committed, then
  refreshed. The result carries the committed state at the point of the raise.
\<close>

definition log_operation_try ::
  "env \<Rightarrow> db \<Rightarrow> int \<Rightarrow> string \<Rightarrow> string \<Rightarrow> int option \<Rightarrow> pyval option \<Rightarrow> pyval option
     \<Rightarrow> string option \<Rightarrow> string option \<Rightarrow> (exn + unit) \<times> db" where
  "log_operation_try e d usr act tbl rid old new descr ip =
     (let log_entry = \<lparr> log_id = logs_seq d, user_id = usr, action = act, table_name = tbl,
                         record_id = rid, old_data = old, new_data = new,
                         description = descr, ip_address = ip, log_created_at = db_now e \<rparr>
      in case fault e LogWrite of
           Some x \<Rightarrow> (Inl x, d)
         | None \<Rightarrow>
             (let d' = d \<lparr> operation_logs := operation_logs d @ [log_entry],
                            logs_seq := logs_seq d + 1 \<rparr>
              in case fault e LogRefresh of
                   Some x \<Rightarrow> (Inl x, d')
                 | None \<Rightarrow> (Inr (), d')))"

text \<open>
  \<open>log_operation\<close> with its two \<open>except\<close> clauses: both roll the session back to the
  committed state and return normally.
\<close>

definition log_operation ::
  "env \<Rightarrow> db \<Rightarrow> int \<Rightarrow> string \<Rightarrow> string \<Rightarrow> int option \<Rightarrow> pyval option \<Rightarrow> pyval option
     \<Rightarrow> string option \<Rightarrow> string option \<Rightarrow> (exn + unit) \<times> db" where
  "log_operation e d usr act tbl rid old new descr ip =
     (case log_operation_try e d usr act tbl rid old new descr ip of
        (Inl x, d') \<Rightarrow> (if is_SQLAlchemyError x then (Inr (), d') else (Inr (), d'))
      | (Inr u, d') \<Rightarrow> (Inr u, d'))"

section \<open>schemas.py\<close>


record EcoRecordCreate =
  date :: date
  powerConsumption :: rat
  drinkingWater :: rat
  irrigationWater :: rat
  electricityPrice :: rat

record EcoRecordUpdate =
  upd_powerConsumption :: "rat option"
  upd_drinkingWater :: "rat option"
  upd_irrigationWater :: "rat option"
  upd_electricityPrice :: "rat option"

record EcoRecordImport =
  records :: "EcoRecordCreate list"
  overwriteExisting :: bool

text \<open>The body of the clear-all request as received: the flag may be absent.\<close>

record ClearDataRequest =
  confirm :: "bool option"




definition field_error :: "string \<Rightarrow> string option \<Rightarrow> (string \<times> string) list" where
  "field_error name r = (case r of None \<Rightarrow> [] | Some msg \<Rightarrow> [(name, msg)])"


definition validate_positive :: "rat \<Rightarrow> string option" where
  "validate_positive v = (if v < 0 then Some ''Value must be positive'' else None)"

definition EcoRecordCreate_errors :: "EcoRecordCreate \<Rightarrow> (string \<times> string) list" where
  "EcoRecordCreate_errors raw =
     field_error ''powerConsumption'' (validate_positive (powerConsumption raw))
     @ field_error ''drinkingWater'' (validate_positive (drinkingWater raw))
     @ field_error ''irrigationWater'' (validate_positive (irrigationWater raw))
     @ field_error ''electricityPrice'' (validate_positive (electricityPrice raw))"

definition validate_positive_opt :: "rat option \<Rightarrow> string option" where
  "validate_positive_opt v =
     (case v of None \<Rightarrow> None
      | Some x \<Rightarrow> (if x < 0 then Some ''Value must be positive'' else None))"

definition EcoRecordUpdate_errors :: "EcoRecordUpdate \<Rightarrow> (string \<times> string) list" where
  "EcoRecordUpdate_errors raw =
     field_error ''powerConsumption'' (validate_positive_opt (upd_powerConsumption raw))
     @ field_error ''drinkingWater'' (validate_positive_opt (upd_drinkingWater raw))
     @ field_error ''irrigationWater'' (validate_positive_opt (upd_irrigationWater raw))
     @ field_error ''electricityPrice'' (validate_positive_opt (upd_electricityPrice raw))"

definition EcoRecordImport_errors :: "EcoRecordImport \<Rightarrow> (string \<times> string) list" where
  "EcoRecordImport_errors raw = concat (map EcoRecordCreate_errors (records raw))"

definition validate_confirm :: "bool \<Rightarrow> string option" where
  "validate_confirm v = (if \<not> v then Some ''Confirm must be true to delete all data'' else None)"

definition ClearDataRequest_errors :: "ClearDataRequest \<Rightarrow> (string \<times> string) list" where
  "ClearDataRequest_errors raw =
     (case confirm raw of
        None \<Rightarrow> [(''confirm'', ''field required'')]
      | Some v \<Rightarrow> field_error ''confirm'' (validate_confirm v))"

section \<open>The session (database.py: autoflush is off)\<close>

text \<open>
  An object passed to \<open>db.add\<close> stays pending until the commit: with
  \<open>autoflush=False\<close> a later query of the same session does not see it.
\<close>

record new_eco_record =
  n_date :: date
  n_power_consumption :: rat
  n_drinking_water :: rat
  n_irrigation_water :: rat
  n_electricity_price :: rat
  n_created_by :: int

text \<open>
  The flush inserts the pending rows one by one. The date column is unique
  (models.py), so a row whose date is already in the table raises. Server defaults
  give both timestamps.
\<close>

fun insert_records ::
  "datetime \<Rightarrow> new_eco_record list \<Rightarrow> eco_record list \<Rightarrow> int \<Rightarrow> exn + (eco_record list \<times> int)" where
  "insert_records now [] tbl s = Inr (tbl, s)"
| "insert_records now (p # ps) tbl s =
     (if n_date p \<in> set (map rec_date tbl)
      then Inl (IntegrityError ''Duplicate entry for key eco_records.date'')
      else insert_records now ps
             (tbl @ [\<lparr> rec_id = s, rec_date = n_date p,
                        power_consumption = n_power_consumption p,
                        drinking_water = n_drinking_water p,
                        irrigation_water = n_irrigation_water p,
                        electricity_price = n_electricity_price p,
                        created_by = n_created_by p, updated_by = None,
                        created_at = now, updated_at = now \<rparr>])
             (s + 1))"

text \<open>
  \<open>db.commit()\<close>: \<open>work\<close> is the table as the session has modified its loaded rows
  (a modified row is written back by its primary key), \<open>pend\<close> the added objects.
  A failed commit leaves the committed state as it was.
\<close>

definition commit :: "env \<Rightarrow> db \<Rightarrow> eco_record list \<Rightarrow> new_eco_record list \<Rightarrow> exn + db" where
  "commit e d work pend =
     (case fault e Commit of
        Some x \<Rightarrow> Inl x
      | None \<Rightarrow>
          (case insert_records (db_now e) pend work (records_seq d) of
             Inl x \<Rightarrow> Inl x
           | Inr (tbl, s) \<Rightarrow> Inr (d \<lparr> eco_records := tbl, records_seq := s \<rparr>)))"

text \<open>\<open>db.refresh(obj)\<close> reloads the row with the object's primary key.\<close>

definition refresh :: "env \<Rightarrow> db \<Rightarrow> int \<Rightarrow> exn + eco_record" where
  "refresh e d k =
     (case fault e Refresh of
        Some x \<Rightarrow> Inl x
      | None \<Rightarrow>
          (case find (\<lambda>r. rec_id r = k) (eco_records d) of
             None \<Rightarrow> Inl (SQLAlchemyError ''Could not refresh instance'')
           | Some r \<Rightarrow> Inr r))"

section \<open>routers/data.py\<close>

definition get_client_ip :: "request \<Rightarrow> string" where
  "get_client_ip req =
     (case forwarded req of
        None \<Rightarrow> client_host req
      | Some h \<Rightarrow> (if h \<noteq> [] then strip (takeWhile (\<lambda>c. c \<noteq> CHR '','') h) else client_host req))"

text \<open>
  Comparison with zero is only ever applied to a converted decimal; there it agrees
  with the decimal.
\<close>

fun float_gt0 :: "pyfloat \<Rightarrow> bool" where
  "float_gt0 (FloatOf q) = (0 < q)"

fun float_is0 :: "pyfloat \<Rightarrow> bool" where
  "float_is0 (FloatOf q) = (q = 0)"

definition py_truediv :: "pyfloat \<Rightarrow> pyfloat \<Rightarrow> exn + pyfloat" where
  "py_truediv a b =
     (if float_is0 b then Inl (ZeroDivisionError ''float division by zero'') else Inr (FDiv a b))"

text \<open>\<open>round(x, n)\<close>: an int stays an int, a float is rounded as a float.\<close>

fun py_round :: "pyval \<Rightarrow> nat \<Rightarrow> pyval" where
  "py_round (PInt i) n = PInt i"
| "py_round (PFloat x) n = PFloat (FRound x n)"

definition calculate_efficiency_and_cost :: "eco_record \<Rightarrow> exn + (pyval \<times> pyval)" where
  "calculate_efficiency_and_cost r =
     (let total_water = FloatOf (drinking_water r + irrigation_water r)
      in case (if float_gt0 total_water
               then (case py_truediv (FloatOf (power_consumption r)) total_water of
                       Inl x \<Rightarrow> Inl x | Inr q \<Rightarrow> Inr (PFloat q))
               else Inr (PInt 0)) of
           Inl x \<Rightarrow> Inl x
         | Inr efficiency \<Rightarrow>
             (let daily_cost = FloatOf (power_consumption r * electricity_price r)
              in Inr (py_round efficiency 6, py_round (PFloat daily_cost) 2)))"

definition username_of :: "user list \<Rightarrow> int \<Rightarrow> pyval" where
  "username_of us k =
     (case find (\<lambda>u. uid u = k) us of None \<Rightarrow> PNone | Some u \<Rightarrow> PStr (username u))"

definition format_record_response :: "user list \<Rightarrow> eco_record \<Rightarrow> exn + pyval" where
  "format_record_response us r =
     (case calculate_efficiency_and_cost r of
        Inl x \<Rightarrow> Inl x
      | Inr (efficiency, daily_cost) \<Rightarrow>
          Inr (PDict
            [(''id'', PInt (rec_id r)),
             (''date'', PDate (rec_date r)),
             (''powerConsumption'', PFloat (FloatOf (power_consumption r))),
             (''drinkingWater'', PFloat (FloatOf (drinking_water r))),
             (''irrigationWater'', PFloat (FloatOf (irrigation_water r))),
             (''electricityPrice'', PFloat (FloatOf (electricity_price r))),
             (''efficiency'', efficiency),
             (''dailyCost'', daily_cost),
             (''createdBy'', PInt (created_by r)),
             (''createdByName'', username_of us (created_by r)),
             (''updatedBy'', (case updated_by r of None \<Rightarrow> PNone | Some k \<Rightarrow> PInt k)),
             (''updatedByName'',
                (case updated_by r of None \<Rightarrow> PNone | Some k \<Rightarrow> username_of us k)),
             (''createdAt'', PDateTime (created_at r)),
             (''updatedAt'', PDateTime (updated_at r))]))"

subsection \<open>create\<close>

definition create_data_try ::
  "env \<Rightarrow> request \<Rightarrow> user \<Rightarrow> EcoRecordCreate \<Rightarrow> db \<Rightarrow> (exn + pyval) \<times> db" where
  "create_data_try e req current_user record_data d =
     (case query_first e (Query 0) (\<lambda>r. rec_date r = date record_data) (eco_records d) of
        Inl x \<Rightarrow> (Inl x, d)
      | Inr (Some existing_record) \<Rightarrow>
          (Inr (PDict
             [(''success'', PBool False),
              (''error'', PStr ''Validation failed''),
              (''message'', PStr ''Date already exists''),
              (''details'', PDict [(''field'', PStr ''date''), (''code'', PStr ''DUPLICATE_DATE'')])]),
           d)
      | Inr None \<Rightarrow>
          (let new_record = \<lparr> n_date = date record_data,
                               n_power_consumption = powerConsumption record_data,
                               n_drinking_water = drinkingWater record_data,
                               n_irrigation_water = irrigationWater record_data,
                               n_electricity_price = electricityPrice record_data,
                               n_created_by = uid current_user \<rparr>
           in case commit e d (eco_records d) [new_record] of
                Inl x \<Rightarrow> (Inl x, d)
              | Inr d1 \<Rightarrow>
                  (case refresh e d1 (records_seq d) of
                     Inl x \<Rightarrow> (Inl x, d1)
                   | Inr created \<Rightarrow>
                       (let new_data_serializable = PDict
                              [(''date'', PStr (isoformat (date record_data))),
                               (''powerConsumption'', PFloat (FloatOf (powerConsumption record_data))),
                               (''drinkingWater'', PFloat (FloatOf (drinkingWater record_data))),
                               (''irrigationWater'', PFloat (FloatOf (irrigationWater record_data))),
                               (''electricityPrice'', PFloat (FloatOf (electricityPrice record_data)))];
                            logged = log_operation e d1 (uid current_user) ''CREATE'' ''eco_records''
                                       (Some (rec_id created)) None (Some new_data_serializable)
                                       (Some (''Created water and electricity record (''
                                                @ isoformat (date record_data) @ '')''))
                                       (Some (get_client_ip req));
                            d2 = (case fst logged of Inl log_error \<Rightarrow> snd logged
                                  | Inr u \<Rightarrow> snd logged)
                        in case format_record_response (users d2) created of
                             Inl x \<Rightarrow> (Inl x, d2)
                           | Inr body \<Rightarrow>
                               (Inr (PDict
                                  [(''success'', PBool True),
                                   (''message'', PStr ''Data record created successfully''),
                                   (''data'', body)]),
                                d2)))))"

text \<open>
  The handler with its \<open>except\<close> clauses, tried in the source's order. Each rolls the
  session back, which leaves the committed state.
\<close>

definition create_data ::
  "env \<Rightarrow> request \<Rightarrow> user \<Rightarrow> EcoRecordCreate \<Rightarrow> db \<Rightarrow> (exn + pyval) \<times> db" where
  "create_data e req current_user record_data d =
     (case create_data_try e req current_user record_data d of
        (Inr body, d') \<Rightarrow> (Inr body, d')
      | (Inl x, d') \<Rightarrow>
          (case x of
             IntegrityError m \<Rightarrow>
               (Inr (PDict
                  [(''success'', PBool False),
                   (''error'', PStr ''Validation failed''),
                   (''message'', PStr ''Date already exists''),
                   (''details'', PDict [(''field'', PStr ''date''), (''code'', PStr ''DUPLICATE_DATE'')])]),
                d')
           | SQLAlchemyError m \<Rightarrow> (Inl (HTTPException 500 (''Database error: '' @ m)), d')
           | _ \<Rightarrow>
               (Inl (HTTPException 500 (''Failed to create data record: '' @ str_exn x)), d')))"

subsection \<open>update\<close>

text \<open>
  The block that updates the fields: each provided field is assigned, in the source's
  order, and recorded in the dictionary of changes.
\<close>

definition update_fields ::
  "EcoRecordUpdate \<Rightarrow> eco_record \<Rightarrow> eco_record \<times> (string \<times> pyval) list" where
  "update_fields record_data r0 =
     (let r1 = (case upd_powerConsumption record_data of
                  None \<Rightarrow> r0 | Some v \<Rightarrow> r0 \<lparr> power_consumption := v \<rparr>);
          u1 = (case upd_powerConsumption record_data of
                  None \<Rightarrow> [] | Some v \<Rightarrow> [(''powerConsumption'', PFloat (FloatOf v))]);
          r2 = (case upd_drinkingWater record_data of
                  None \<Rightarrow> r1 | Some v \<Rightarrow> r1 \<lparr> drinking_water := v \<rparr>);
          u2 = (case upd_drinkingWater record_data of
                  None \<Rightarrow> u1 | Some v \<Rightarrow> u1 @ [(''drinkingWater'', PFloat (FloatOf v))]);
          r3 = (case upd_irrigationWater record_data of
                  None \<Rightarrow> r2 | Some v \<Rightarrow> r2 \<lparr> irrigation_water := v \<rparr>);
          u3 = (case upd_irrigationWater record_data of
                  None \<Rightarrow> u2 | Some v \<Rightarrow> u2 @ [(''irrigationWater'', PFloat (FloatOf v))]);
          r4 = (case upd_electricityPrice record_data of
                  None \<Rightarrow> r3 | Some v \<Rightarrow> r3 \<lparr> electricity_price := v \<rparr>);
          u4 = (case upd_electricityPrice record_data of
                  None \<Rightarrow> u3 | Some v \<Rightarrow> u3 @ [(''electricityPrice'', PFloat (FloatOf v))])
      in (r4, u4))"

text \<open>The handler's \<open>try\<close> block.\<close>

definition update_data_try ::
  "env \<Rightarrow> request \<Rightarrow> user \<Rightarrow> int \<Rightarrow> EcoRecordUpdate \<Rightarrow> db \<Rightarrow> (exn + pyval) \<times> db" where
  "update_data_try e req current_user rid record_data d =
     (case query_first e (Query 0) (\<lambda>r. rec_id r = rid) (eco_records d) of
        Inl x \<Rightarrow> (Inl x, d)
      | Inr None \<Rightarrow> (Inl (HTTPException 404 ''Record not found''), d)
      | Inr (Some r0) \<Rightarrow>
          (let old = PDict
                 [(''date'', PStr (isoformat (rec_date r0))),
                  (''powerConsumption'', PFloat (FloatOf (power_consumption r0))),
                  (''drinkingWater'', PFloat (FloatOf (drinking_water r0))),
                  (''irrigationWater'', PFloat (FloatOf (irrigation_water r0))),
                  (''electricityPrice'', PFloat (FloatOf (electricity_price r0)))];
               changed = update_fields record_data r0;
               r5 = (fst changed) \<lparr> updated_by := Some (uid current_user), updated_at := utcnow e \<rparr>
           in case commit e d (map (\<lambda>r. if rec_id r = rec_id r0 then r5 else r) (eco_records d)) [] of
                Inl x \<Rightarrow> (Inl x, d)
              | Inr d1 \<Rightarrow>
                  (case refresh e d1 (rec_id r5) of
                     Inl x \<Rightarrow> (Inl x, d1)
                   | Inr r6 \<Rightarrow>
                       (case log_operation e d1 (uid current_user) ''UPDATE'' ''eco_records''
                               (Some (rec_id r6)) (Some old) (Some (PDict (snd changed)))
                               (Some (''Updated water and electricity record (''
                                        @ isoformat (rec_date r6) @ '')''))
                               (Some (get_client_ip req)) of
                          (Inl x, d2) \<Rightarrow> (Inl x, d2)
                        | (Inr u, d2) \<Rightarrow>
                            (case format_record_response (users d2) r6 of
                               Inl x \<Rightarrow> (Inl x, d2)
                             | Inr body \<Rightarrow>
                                 (Inr (PDict
                                    [(''success'', PBool True),
                                     (''message'', PStr ''Data record updated successfully''),
                                     (''data'', body)]),
                                  d2))))))"

definition update_data ::
  "env \<Rightarrow> request \<Rightarrow> user \<Rightarrow> int \<Rightarrow> EcoRecordUpdate \<Rightarrow> db \<Rightarrow> (exn + pyval) \<times> db" where
  "update_data e req current_user rid record_data d =
     (case update_data_try e req current_user rid record_data d of
        (Inr body, d') \<Rightarrow> (Inr body, d')
      | (Inl x, d') \<Rightarrow>
          (if is_HTTPException x then (Inl x, d')
           else (Inl (HTTPException 500 ''Failed to update data record''), d')))"

subsection \<open>delete and clear-all\<close>

definition delete_data_try ::
  "env \<Rightarrow> request \<Rightarrow> user \<Rightarrow> int \<Rightarrow> db \<Rightarrow> (exn + pyval) \<times> db" where
  "delete_data_try e req current_user rid d =
     (case query_first e (Query 0) (\<lambda>r. rec_id r = rid) (eco_records d) of
        Inl x \<Rightarrow> (Inl x, d)
      | Inr None \<Rightarrow> (Inl (HTTPException 404 ''Record not found''), d)
      | Inr (Some r0) \<Rightarrow>
          (let old = PDict
                 [(''date'', PStr (isoformat (rec_date r0))),
                  (''powerConsumption'', PFloat (FloatOf (power_consumption r0))),
                  (''drinkingWater'', PFloat (FloatOf (drinking_water r0))),
                  (''irrigationWater'', PFloat (FloatOf (irrigation_water r0))),
                  (''electricityPrice'', PFloat (FloatOf (electricity_price r0)))]
           in case commit e d (filter (\<lambda>r. rec_id r \<noteq> rec_id r0) (eco_records d)) [] of
                Inl x \<Rightarrow> (Inl x, d)
              | Inr d1 \<Rightarrow>
                  (case log_operation e d1 (uid current_user) ''DELETE'' ''eco_records''
                          (Some rid) (Some old) None
                          (Some (''Deleted water and electricity record (''
                                   @ isoformat (rec_date r0) @ '')''))
                          (Some (get_client_ip req)) of
                     (Inl x, d2) \<Rightarrow> (Inl x, d2)
                   | (Inr u, d2) \<Rightarrow>
                       (Inr (PDict
                          [(''success'', PBool True),
                           (''message'', PStr ''Data record deleted successfully'')]),
                        d2))))"

definition delete_data ::
  "env \<Rightarrow> request \<Rightarrow> user \<Rightarrow> int \<Rightarrow> db \<Rightarrow> (exn + pyval) \<times> db" where
  "delete_data e req current_user rid d =
     (case delete_data_try e req current_user rid d of
        (Inr body, d') \<Rightarrow> (Inr body, d')
      | (Inl x, d') \<Rightarrow>
          (if is_HTTPException x then (Inl x, d')
           else (Inl (HTTPException 500 ''Failed to delete data record''), d')))"

definition clear_all_data_try ::
  "env \<Rightarrow> request \<Rightarrow> user \<Rightarrow> bool \<Rightarrow> db \<Rightarrow> (exn + pyval) \<times> db" where
  "clear_all_data_try e req current_user clear_request d =
     (case fault e Count of
        Some x \<Rightarrow> (Inl x, d)
      | None \<Rightarrow>
          (let count = length (eco_records d)
           in case fault e BulkDelete of
                Some x \<Rightarrow> (Inl x, d)
              | None \<Rightarrow>
                  (case commit e d [] [] of
                     Inl x \<Rightarrow> (Inl x, d)
                   | Inr d1 \<Rightarrow>
                       (case log_operation e d1 (uid current_user) ''DELETE'' ''eco_records''
                               None None None
                               (Some (''Cleared all data ('' @ str_nat count @ '' records)''))
                               (Some (get_client_ip req)) of
                          (Inl x, d2) \<Rightarrow> (Inl x, d2)
                        | (Inr u, d2) \<Rightarrow>
                            (Inr (PDict
                               [(''success'', PBool True),
                                (''message'', PStr ''All data records deleted successfully''),
                                (''data'', PDict
                                   [(''deletedCount'', PInt (int count)),
                                    (''warning'',
                                     PStr ''All system data has been permanently deleted'')])]),
                             d2)))))"

definition clear_all_data ::
  "env \<Rightarrow> request \<Rightarrow> user \<Rightarrow> bool \<Rightarrow> db \<Rightarrow> (exn + pyval) \<times> db" where
  "clear_all_data e req current_user clear_request d =
     (case clear_all_data_try e req current_user clear_request d of
        (Inr body, d') \<Rightarrow> (Inr body, d')
      | (Inl x, d') \<Rightarrow> (Inl (HTTPException 500 ''Failed to clear all data''), d'))"

subsection \<open>batch import\<close>

record import_state =
  work :: "eco_record list"
  pending :: "new_eco_record list"
  imported :: nat
  updated :: nat
  skipped :: nat
  errors :: "string list"

text \<open>
  One iteration of the loop, with its own \<open>try\<close>/\<open>except\<close>. The lookup goes to the
  table and does not see the pending objects.
\<close>

definition import_step ::
  "env \<Rightarrow> bool \<Rightarrow> user \<Rightarrow> nat \<Rightarrow> EcoRecordCreate \<Rightarrow> import_state \<Rightarrow> import_state" where
  "import_step e overwrite current_user k record_data st =
     (case query_first e (Query k) (\<lambda>r. rec_date r = date record_data) (work st) of
        Inl x \<Rightarrow>
          st \<lparr> errors := errors st @
                  [''Error importing record for '' @ isoformat (date record_data)
                     @ '': '' @ str_exn x] \<rparr>
      | Inr (Some existing_record) \<Rightarrow>
          (if overwrite
           then st \<lparr> work :=
                        map (\<lambda>r. if rec_id r = rec_id existing_record
                                  then existing_record
                                         \<lparr> power_consumption := powerConsumption record_data,
                                           drinking_water := drinkingWater record_data,
                                           irrigation_water := irrigationWater record_data,
                                           electricity_price := electricityPrice record_data,
                                           updated_by := Some (uid current_user),
                                           updated_at := utcnow e \<rparr>
                                  else r) (work st),
                      updated := updated st + 1 \<rparr>
           else st \<lparr> skipped := skipped st + 1 \<rparr>)
      | Inr None \<Rightarrow>
          st \<lparr> pending := pending st @
                  [\<lparr> n_date = date record_data,
                      n_power_consumption = powerConsumption record_data,
                      n_drinking_water = drinkingWater record_data,
                      n_irrigation_water = irrigationWater record_data,
                      n_electricity_price = electricityPrice record_data,
                      n_created_by = uid current_user \<rparr>],
                imported := imported st + 1 \<rparr>)"

fun import_loop ::
  "env \<Rightarrow> bool \<Rightarrow> user \<Rightarrow> nat \<Rightarrow> EcoRecordCreate list \<Rightarrow> import_state \<Rightarrow> import_state" where
  "import_loop e overwrite current_user k [] st = st"
| "import_loop e overwrite current_user k (record_data # rest) st =
     import_loop e overwrite current_user (Suc k) rest
       (import_step e overwrite current_user k record_data st)"

definition import_data_try ::
  "env \<Rightarrow> request \<Rightarrow> user \<Rightarrow> EcoRecordImport \<Rightarrow> db \<Rightarrow> (exn + pyval) \<times> db" where
  "import_data_try e req current_user import_request d =
     (let st = import_loop e (overwriteExisting import_request) current_user 0
                 (records import_request)
                 \<lparr> work = eco_records d, pending = [], imported = 0, updated = 0,
                    skipped = 0, errors = [] \<rparr>
      in case commit e d (work st) (pending st) of
           Inl x \<Rightarrow> (Inl x, d)
         | Inr d1 \<Rightarrow>
             (case log_operation e d1 (uid current_user) ''CREATE'' ''eco_records''
                     None None None
                     (Some (''Batch imported data (imported: '' @ str_nat (imported st)
                              @ '', updated: '' @ str_nat (updated st)
                              @ '', skipped: '' @ str_nat (skipped st) @ '')''))
                     (Some (get_client_ip req)) of
                (Inl x, d2) \<Rightarrow> (Inl x, d2)
              | (Inr u, d2) \<Rightarrow>
                  (Inr (PDict
                     [(''success'', PBool True),
                      (''message'', PStr ''Data imported successfully''),
                      (''data'', PDict
                         [(''imported'', PInt (int (imported st))),
                          (''updated'', PInt (int (updated st))),
                          (''skipped'', PInt (int (skipped st))),
                          (''errors'', PList (map PStr (errors st)))])]),
                   d2)))"

definition import_data ::
  "env \<Rightarrow> request \<Rightarrow> user \<Rightarrow> EcoRecordImport \<Rightarrow> db \<Rightarrow> (exn + pyval) \<times> db" where
  "import_data e req current_user import_request d =
     (case import_data_try e req current_user import_request d of
        (Inr body, d') \<Rightarrow> (Inr body, d')
      | (Inl x, d') \<Rightarrow> (Inl (HTTPException 500 ''Failed to import data''), d'))"

section \<open>routers/auth.py: registration\<close>



section \<open>routers/logs.py\<close>

record logs_query =
  page :: int
  limit :: int
  startDate :: "date option"
  endDate :: "date option"
  userId :: "int option"
  action_filter :: "string option"

text \<open>The bounds that the route declares for its query parameters.\<close>

definition logs_query_errors :: "logs_query \<Rightarrow> (string \<times> string) list" where
  "logs_query_errors q =
     (if page q < 1 then [(''page'', ''ensure this value is greater than or equal to 1'')] else [])
     @ (if limit q < 1 then [(''limit'', ''ensure this value is greater than or equal to 1'')]
        else if 100 < limit q then [(''limit'', ''ensure this value is less than or equal to 100'')]
        else [])
     @ (case action_filter q of
          None \<Rightarrow> []
        | Some a \<Rightarrow> (if a = ''CREATE'' \<or> a = ''UPDATE'' \<or> a = ''DELETE'' then []
                     else [(''action'', ''string does not match regex'')]))"

definition format_log :: "user list \<Rightarrow> operation_log \<Rightarrow> pyval" where
  "format_log us l =
     PDict
       [(''id'', PInt (log_id l)),
        (''userId'', PInt (user_id l)),
        (''username'', username_of us (user_id l)),
        (''action'', PStr (action l)),
        (''tableName'', PStr (table_name l)),
        (''recordId'', (case record_id l of None \<Rightarrow> PNone | Some k \<Rightarrow> PInt k)),
        (''oldData'', (case old_data l of None \<Rightarrow> PNone | Some v \<Rightarrow> v)),
        (''newData'', (case new_data l of None \<Rightarrow> PNone | Some v \<Rightarrow> v)),
        (''description'', (case description l of None \<Rightarrow> PNone | Some v \<Rightarrow> PStr v)),
        (''ipAddress'', (case ip_address l of None \<Rightarrow> PNone | Some v \<Rightarrow> PStr v)),
        (''createdAt'', PDateTime (log_created_at l))]"

text \<open>
  The rows the query selects, in its order. Each \<open>if\<close> of the source tests the
  parameter's truth value: a date is always true, an integer is true when it is not 0,
  a string when it is not empty. Rows with equal timestamps come in an order the
  database chooses; the model takes the reverse of a stable ascending sort.
\<close>

definition selected_logs :: "logs_query \<Rightarrow> db \<Rightarrow> operation_log list" where
  "selected_logs q d =
     (let q0 = filter (\<lambda>l. user_id l \<in> set (map uid (users d))) (operation_logs d);
          q1 = (case startDate q of
                  None \<Rightarrow> q0
                | Some s \<Rightarrow> filter (\<lambda>l. midnight s \<le> log_created_at l) q0);
          q2 = (case endDate q of
                  None \<Rightarrow> q1
                | Some t \<Rightarrow> filter (\<lambda>l. log_created_at l \<le> midnight t) q1);
          q3 = (case userId q of
                  None \<Rightarrow> q2
                | Some k \<Rightarrow> (if k \<noteq> 0 then filter (\<lambda>l. user_id l = k) q2 else q2));
          q4 = (case action_filter q of
                  None \<Rightarrow> q3
                | Some a \<Rightarrow> (if a \<noteq> [] then filter (\<lambda>l. action l = a) q3 else q3))
      in rev (sort_key log_created_at q4))"

definition get_operation_logs_try :: "env \<Rightarrow> user \<Rightarrow> logs_query \<Rightarrow> db \<Rightarrow> exn + pyval" where
  "get_operation_logs_try e current_admin q d =
     (let query = selected_logs q d
      in case fault e Count of
           Some x \<Rightarrow> Inl x
         | None \<Rightarrow>
             (let total = int (length query);
                  offset = (page q - 1) * limit q
              in case fault e (Query 0) of
                   Some x \<Rightarrow> Inl x
                 | None \<Rightarrow>
                     (let logs = take (nat (limit q)) (drop (nat offset) query);
                          total_pages = (total + limit q - 1) div limit q;
                          has_next = (page q < total_pages);
                          has_prev = (1 < page q)
                      in Inr (PDict
                           [(''success'', PBool True),
                            (''data'', PDict
                               [(''logs'', PList (map (format_log (users d)) logs)),
                                (''pagination'', PDict
                                   [(''currentPage'', PInt (page q)),
                                    (''totalPages'', PInt total_pages),
                                    (''totalCount'', PInt total),
                                    (''hasNext'', PBool has_next),
                                    (''hasPrev'', PBool has_prev)])])]))))"

definition get_operation_logs :: "env \<Rightarrow> user \<Rightarrow> logs_query \<Rightarrow> db \<Rightarrow> exn + pyval" where
  "get_operation_logs e current_admin q d =
     (case get_operation_logs_try e current_admin q d of
        Inr body \<Rightarrow> Inr body
      | Inl x \<Rightarrow>
          (if is_SQLAlchemyError x
           then Inl (HTTPException 500 (''Database error: '' @ str_exn x))
           else Inl (HTTPException 500 (''Failed to retrieve operation logs: '' @ str_exn x))))"

section \<open>main.py: routes and exception handlers\<close>

text \<open>
  A route resolves its dependencies first (a raised \<open>HTTPException\<close> ends the request),
  then the errors of the request's validation are raised together, and only a valid
  request reaches the handler.
\<close>

definition post_data :: "env \<Rightarrow> request \<Rightarrow> EcoRecordCreate \<Rightarrow> db \<Rightarrow> (exn + pyval) \<times> db" where
  "post_data e req raw d =
     (case get_current_user e req d of
        Inl x \<Rightarrow> (Inl x, d)
      | Inr current_user \<Rightarrow>
          (case EcoRecordCreate_errors raw of
             [] \<Rightarrow> create_data e req current_user raw d
           | es \<Rightarrow> (Inl (RequestValidationError es), d)))"

definition put_data ::
  "env \<Rightarrow> request \<Rightarrow> int \<Rightarrow> EcoRecordUpdate \<Rightarrow> db \<Rightarrow> (exn + pyval) \<times> db" where
  "put_data e req rid raw d =
     (case get_current_user e req d of
        Inl x \<Rightarrow> (Inl x, d)
      | Inr current_user \<Rightarrow>
          (case EcoRecordUpdate_errors raw of
             [] \<Rightarrow> update_data e req current_user rid raw d
           | es \<Rightarrow> (Inl (RequestValidationError es), d)))"

definition delete_data_route :: "env \<Rightarrow> request \<Rightarrow> int \<Rightarrow> db \<Rightarrow> (exn + pyval) \<times> db" where
  "delete_data_route e req rid d =
     (case get_current_user e req d of
        Inl x \<Rightarrow> (Inl x, d)
      | Inr current_user \<Rightarrow> delete_data e req current_user rid d)"

definition delete_all_data ::
  "env \<Rightarrow> request \<Rightarrow> ClearDataRequest \<Rightarrow> db \<Rightarrow> (exn + pyval) \<times> db" where
  "delete_all_data e req raw d =
     (case get_current_user e req d of
        Inl x \<Rightarrow> (Inl x, d)
      | Inr current_user \<Rightarrow>
          (case ClearDataRequest_errors raw of
             [] \<Rightarrow> clear_all_data e req current_user (confirm raw = Some True) d
           | es \<Rightarrow> (Inl (RequestValidationError es), d)))"

definition post_data_import ::
  "env \<Rightarrow> request \<Rightarrow> EcoRecordImport \<Rightarrow> db \<Rightarrow> (exn + pyval) \<times> db" where
  "post_data_import e req raw d =
     (case get_current_user e req d of
        Inl x \<Rightarrow> (Inl x, d)
      | Inr current_user \<Rightarrow>
          (case EcoRecordImport_errors raw of
             [] \<Rightarrow> import_data e req current_user raw d
           | es \<Rightarrow> (Inl (RequestValidationError es), d)))"


definition get_logs :: "env \<Rightarrow> request \<Rightarrow> logs_query \<Rightarrow> db \<Rightarrow> exn + pyval" where
  "get_logs e req q d =
     (case get_current_admin_user e req d of
        Inl x \<Rightarrow> Inl x
      | Inr current_admin \<Rightarrow>
          (case logs_query_errors q of
             [] \<Rightarrow> get_operation_logs e current_admin q d
           | es \<Rightarrow> Inl (RequestValidationError es)))"





text \<open>A key of the body that a handler returned; nothing when it raised.\<close>

definition body_get :: "exn + pyval \<Rightarrow> string \<Rightarrow> pyval option" where
  "body_get r k = (case r of Inl x \<Rightarrow> None | Inr body \<Rightarrow> dict_get body k)"

section \<open>Example data\<close>

definition decode0 :: "string \<Rightarrow> jwt_payload option" where
  "decode0 tok =
     (if tok = ''t-alice''
        then Some \<lparr> p_user_id = Some 1, p_username = Some ''@alice'', p_role = Some ''user'' \<rparr>
      else if tok = ''t-root''
        then Some \<lparr> p_user_id = Some 2, p_username = Some ''@root'', p_role = Some ''admin'' \<rparr>
      else None)"

definition env0 :: env where
  "env0 = \<lparr> fault = no_fault, utcnow = ((2024, 1, 2), 3600), db_now = ((2024, 1, 2), 3600),
             jwt_decode = decode0 \<rparr>"

definition alice :: user where
  "alice = \<lparr> uid = 1, username = ''@alice'', password = ''secret1'', role = ''user'',
              user_created_at = ((2023, 12, 1), 0), user_updated_at = ((2023, 12, 1), 0),
              last_login_at = None \<rparr>"

definition root :: user where
  "root = \<lparr> uid = 2, username = ''@root'', password = ''secret2'', role = ''admin'',
             user_created_at = ((2023, 12, 1), 0), user_updated_at = ((2023, 12, 1), 0),
             last_login_at = None \<rparr>"

definition req_alice :: request where
  "req_alice = \<lparr> credentials = ''t-alice'', forwarded = None, client_host = ''10.0.0.5'',
                  url_path = ''/api/data'' \<rparr>"

definition req_root :: request where
  "req_root = \<lparr> credentials = ''t-root'', forwarded = None, client_host = ''10.0.0.6'',
                 url_path = ''/api/logs'' \<rparr>"

definition db0 :: db where
  "db0 = \<lparr> users = [alice, root], eco_records = [], operation_logs = [],
            users_seq = 3, records_seq = 1, logs_seq = 1 \<rparr>"

definition row1 :: eco_record where
  "row1 = \<lparr> rec_id = 1, rec_date = (2024, 1, 1), power_consumption = 100,
             drinking_water = 30, irrigation_water = 20, electricity_price = 25,
             created_by = 1, updated_by = None,
             created_at = ((2024, 1, 1), 0), updated_at = ((2024, 1, 1), 0) \<rparr>"

definition db1 :: db where
  "db1 = db0 \<lparr> eco_records := [row1], records_seq := 2 \<rparr>"

definition day1 :: EcoRecordCreate where
  "day1 = \<lparr> date = (2024, 1, 1), powerConsumption = 100, drinkingWater = 30,
             irrigationWater = 20, electricityPrice = 25 \<rparr>"

definition day2 :: EcoRecordCreate where
  "day2 = \<lparr> date = (2024, 1, 2), powerConsumption = 80, drinkingWater = 0,
             irrigationWater = 0, electricityPrice = 25 \<rparr>"

text \<open>The environment in which the commit loses the duplicate-key race.\<close>

definition env_race :: env where
  "env_race = env0 \<lparr> fault := no_fault (Commit := Some (IntegrityError ''Duplicate entry'')) \<rparr>"

text \<open>The environment in which the audit write fails.\<close>

definition env_audit_down :: env where
  "env_audit_down = with_audit_fault env0 (Some (SQLAlchemyError ''connection lost'')) None"

definition power_only :: EcoRecordUpdate where
  "power_only = \<lparr> upd_powerConsumption = Some 120, upd_drinkingWater = None,
                   upd_irrigationWater = None, upd_electricityPrice = None \<rparr>"

definition confirmed :: ClearDataRequest where
  "confirmed = \<lparr> confirm = Some True \<rparr>"

definition unconfirmed :: ClearDataRequest where
  "unconfirmed = \<lparr> confirm = Some False \<rparr>"

text \<open>The same state with the roles of the users table replaced.\<close>

definition with_roles :: "(user \<Rightarrow> string) \<Rightarrow> db \<Rightarrow> db" where
  "with_roles f d = d \<lparr> users := map (\<lambda>u. u \<lparr> role := f u \<rparr>) (users d) \<rparr>"

section \<open>Predicates on states and requests\<close>

text \<open>
  The invariant of the records table, the primary-key discipline that the database keeps
  (keys are unique and below the auto-increment counter), and what it means for a
  request to carry a negative quantity.
\<close>

definition no_negative :: "eco_record \<Rightarrow> bool" where
  "no_negative r = (0 \<le> power_consumption r \<and> 0 \<le> drinking_water r
                    \<and> 0 \<le> irrigation_water r \<and> 0 \<le> electricity_price r)"

definition state_invariant :: "db \<Rightarrow> bool" where
  "state_invariant d =
     (distinct (map rec_date (eco_records d)) \<and> list_all no_negative (eco_records d))"

definition primary_keys_ok :: "db \<Rightarrow> bool" where
  "primary_keys_ok d =
     (distinct (map rec_id (eco_records d))
      \<and> list_all (\<lambda>r. rec_id r < records_seq d) (eco_records d))"

definition negative_create :: "EcoRecordCreate \<Rightarrow> bool" where
  "negative_create c = (powerConsumption c < 0 \<or> drinkingWater c < 0
                        \<or> irrigationWater c < 0 \<or> electricityPrice c < 0)"

definition negative_opt :: "rat option \<Rightarrow> bool" where
  "negative_opt v = (case v of None \<Rightarrow> False | Some x \<Rightarrow> x < 0)"

definition negative_update :: "EcoRecordUpdate \<Rightarrow> bool" where
  "negative_update c = (negative_opt (upd_powerConsumption c) \<or> negative_opt (upd_drinkingWater c)
                        \<or> negative_opt (upd_irrigationWater c)
                        \<or> negative_opt (upd_electricityPrice c))"

definition pending_ok :: "new_eco_record \<Rightarrow> bool" where
  "pending_ok p = (0 \<le> n_power_consumption p \<and> 0 \<le> n_drinking_water p
                   \<and> 0 \<le> n_irrigation_water p \<and> 0 \<le> n_electricity_price p)"

definition table_ok :: "int \<Rightarrow> eco_record list \<Rightarrow> bool" where
  "table_ok s tbl =
     (distinct (map rec_date tbl) \<and> list_all no_negative tbl
      \<and> distinct (map rec_id tbl) \<and> list_all (\<lambda>r. rec_id r < s) tbl)"

definition import_state_ok :: "int \<Rightarrow> import_state \<Rightarrow> bool" where
  "import_state_ok s st = (table_ok s (work st) \<and> list_all pending_ok (pending st))"

section \<open>Further example data\<close>

subsection \<open>Requests with a negative quantity\<close>

definition day_neg :: EcoRecordCreate where
  "day_neg = \<lparr> date = (2024, 1, 3), powerConsumption = - 1, drinkingWater = 5,
                irrigationWater = 5, electricityPrice = 25 \<rparr>"

definition upd_neg :: EcoRecordUpdate where
  "upd_neg = \<lparr> upd_powerConsumption = None, upd_drinkingWater = Some (- 2),
                upd_irrigationWater = None, upd_electricityPrice = None \<rparr>"

definition import_neg :: EcoRecordImport where
  "import_neg = \<lparr> records = [day2, day_neg], overwriteExisting = False \<rparr>"

subsection \<open>A batch with a repeated date; a log query for user 0\<close>

definition import_dup :: EcoRecordImport where
  "import_dup = \<lparr> records = [day2, day2], overwriteExisting = True \<rparr>"

definition log1 :: operation_log where
  "log1 = \<lparr> log_id = 1, user_id = 1, action = ''CREATE'', table_name = ''eco_records'',
             record_id = Some 1, old_data = None, new_data = None,
             description = Some ''Created water and electricity record (2024-01-01)'',
             ip_address = Some ''10.0.0.5'', log_created_at = ((2024, 1, 1), 0) \<rparr>"

definition db_logs :: db where
  "db_logs = db1 \<lparr> operation_logs := [log1], logs_seq := 2 \<rparr>"

definition q_user0 :: logs_query where
  "q_user0 = \<lparr> page = 1, limit = 20, startDate = None, endDate = None, userId = Some 0,
                action_filter = None \<rparr>"

subsection \<open>Registration requests\<close>





lemmas example_defs =
  env0_def no_fault_def decode0_def alice_def root_def req_alice_def req_root_def
  db0_def db1_def row1_def day1_def day2_def env_race_def env_audit_down_def

lemmas format_defs = isoformat_def isoformat_dt_def zfill_def str_nat.simps digit_char_def

section \<open>The audit log\<close>

lemma log_operation_eq:
  "log_operation e d usr act tbl rid old new descr ip =
     (Inr (),
      if fault e LogWrite = None
      then d \<lparr> operation_logs := operation_logs d @
                 [\<lparr> log_id = logs_seq d, user_id = usr, action = act, table_name = tbl,
                     record_id = rid, old_data = old, new_data = new,
                     description = descr, ip_address = ip, log_created_at = db_now e \<rparr>],
               logs_seq := logs_seq d + 1 \<rparr>
      else d)"
  by (simp add: log_operation_def log_operation_try_def Let_def split: option.splits)

lemma log_operation_fst [simp]:
  "fst (log_operation e d usr act tbl rid old new descr ip) = Inr ()"
  by (simp add: log_operation_eq)

lemma log_operation_frame [simp]:
  "users (snd (log_operation e d usr act tbl rid old new descr ip)) = users d"
  "eco_records (snd (log_operation e d usr act tbl rid old new descr ip)) = eco_records d"
  "users_seq (snd (log_operation e d usr act tbl rid old new descr ip)) = users_seq d"
  "records_seq (snd (log_operation e d usr act tbl rid old new descr ip)) = records_seq d"
  by (simp_all add: log_operation_eq)

lemma audit_fault_other [simp]:
  "fault (with_audit_fault e a b) UserLookup = fault e UserLookup"
  "fault (with_audit_fault e a b) (Query k) = fault e (Query k)"
  "fault (with_audit_fault e a b) Commit = fault e Commit"
  "fault (with_audit_fault e a b) Refresh = fault e Refresh"
  "fault (with_audit_fault e a b) Count = fault e Count"
  "fault (with_audit_fault e a b) BulkDelete = fault e BulkDelete"
  "utcnow (with_audit_fault e a b) = utcnow e"
  "db_now (with_audit_fault e a b) = db_now e"
  "jwt_decode (with_audit_fault e a b) = jwt_decode e"
  by (simp_all add: with_audit_fault_def)

lemma query_first_audit [simp]:
  "query_first (with_audit_fault e a b) (Query k) P rows = query_first e (Query k) P rows"
  by (simp add: query_first_def split: option.splits)

lemma commit_audit [simp]: "commit (with_audit_fault e a b) d w p = commit e d w p"
  by (simp add: commit_def split: option.splits)

lemma refresh_audit [simp]: "refresh (with_audit_fault e a b) d k = refresh e d k"
  by (simp add: refresh_def split: option.splits)

lemma create_audit:
  "fst (create_data_try (with_audit_fault e a b) req u rd d) = fst (create_data_try e req u rd d)
   \<and> eco_records (snd (create_data_try (with_audit_fault e a b) req u rd d))
       = eco_records (snd (create_data_try e req u rd d))"
  by (simp add: create_data_try_def Let_def split: sum.splits option.splits)

lemma update_audit:
  "fst (update_data_try (with_audit_fault e a b) req u rid rd d)
     = fst (update_data_try e req u rid rd d)
   \<and> eco_records (snd (update_data_try (with_audit_fault e a b) req u rid rd d))
       = eco_records (snd (update_data_try e req u rid rd d))"
  by (simp add: update_data_try_def Let_def log_operation_eq split: sum.splits option.splits)

lemma delete_audit:
  "fst (delete_data_try (with_audit_fault e a b) req u rid d) = fst (delete_data_try e req u rid d)
   \<and> eco_records (snd (delete_data_try (with_audit_fault e a b) req u rid d))
       = eco_records (snd (delete_data_try e req u rid d))"
  by (simp add: delete_data_try_def Let_def log_operation_eq split: sum.splits option.splits)

lemma clear_audit:
  "fst (clear_all_data_try (with_audit_fault e a b) req u c d)
     = fst (clear_all_data_try e req u c d)
   \<and> eco_records (snd (clear_all_data_try (with_audit_fault e a b) req u c d))
       = eco_records (snd (clear_all_data_try e req u c d))"
  by (simp add: clear_all_data_try_def Let_def log_operation_eq split: sum.splits option.splits)

lemma import_step_audit [simp]:
  "import_step (with_audit_fault e a b) ow u k rd st = import_step e ow u k rd st"
  by (simp add: import_step_def split: sum.splits option.splits)

lemma import_loop_audit [simp]:
  "import_loop (with_audit_fault e a b) ow u k rds st = import_loop e ow u k rds st"
  by (induction rds arbitrary: k st) simp_all

lemma import_audit:
  "fst (import_data_try (with_audit_fault e a b) req u ir d) = fst (import_data_try e req u ir d)
   \<and> eco_records (snd (import_data_try (with_audit_fault e a b) req u ir d))
       = eco_records (snd (import_data_try e req u ir d))"
  by (simp add: import_data_try_def Let_def log_operation_eq split: sum.splits option.splits)

text \<open>What a handler returns is decided by what its \<open>try\<close> block returns.\<close>

lemma create_data_snd: "snd (create_data e req u rd d) = snd (create_data_try e req u rd d)"
  by (simp add: create_data_def split: prod.splits sum.splits exn.splits)

lemma update_data_snd: "snd (update_data e req u rid rd d) = snd (update_data_try e req u rid rd d)"
  by (simp add: update_data_def split: prod.splits sum.splits)

lemma delete_data_snd: "snd (delete_data e req u rid d) = snd (delete_data_try e req u rid d)"
  by (simp add: delete_data_def split: prod.splits sum.splits)

lemma clear_all_data_snd:
  "snd (clear_all_data e req u c d) = snd (clear_all_data_try e req u c d)"
  by (simp add: clear_all_data_def split: prod.splits sum.splits)

lemma import_data_snd: "snd (import_data e req u ir d) = snd (import_data_try e req u ir d)"
  by (simp add: import_data_def split: prod.splits sum.splits)

lemma create_data_fst:
  "fst (create_data_try e req u rd d) = fst (create_data_try e' req' u' rd' d')
   \<Longrightarrow> fst (create_data e req u rd d) = fst (create_data e' req' u' rd' d')"
  by (cases "create_data_try e req u rd d"; cases "create_data_try e' req' u' rd' d'")
     (auto simp: create_data_def split: sum.splits exn.splits)

lemma update_data_fst:
  "fst (update_data_try e req u rid rd d) = fst (update_data_try e' req' u' rid' rd' d')
   \<Longrightarrow> fst (update_data e req u rid rd d) = fst (update_data e' req' u' rid' rd' d')"
  by (cases "update_data_try e req u rid rd d"; cases "update_data_try e' req' u' rid' rd' d'")
     (auto simp: update_data_def split: sum.splits)

lemma delete_data_fst:
  "fst (delete_data_try e req u rid d) = fst (delete_data_try e' req' u' rid' d')
   \<Longrightarrow> fst (delete_data e req u rid d) = fst (delete_data e' req' u' rid' d')"
  by (cases "delete_data_try e req u rid d"; cases "delete_data_try e' req' u' rid' d'")
     (auto simp: delete_data_def split: sum.splits)

lemma clear_all_data_fst:
  "fst (clear_all_data_try e req u c d) = fst (clear_all_data_try e' req' u' c' d')
   \<Longrightarrow> fst (clear_all_data e req u c d) = fst (clear_all_data e' req' u' c' d')"
  by (cases "clear_all_data_try e req u c d"; cases "clear_all_data_try e' req' u' c' d'")
     (auto simp: clear_all_data_def split: sum.splits)

lemma import_data_fst:
  "fst (import_data_try e req u ir d) = fst (import_data_try e' req' u' ir' d')
   \<Longrightarrow> fst (import_data e req u ir d) = fst (import_data e' req' u' ir' d')"
  by (cases "import_data_try e req u ir d"; cases "import_data_try e' req' u' ir' d'")
     (auto simp: import_data_def split: sum.splits)

text \<open>
  C7. A failure of the audit write never leaves \<open>log_operation\<close>, and every record
  mutation gives the client the same result, and leaves the same records, whether the
  audit write fails or succeeds.
\<close>

theorem audit_failure_isolated:
  "fst (log_operation e d usr act tbl rid old new descr ip) = Inr ()
   \<and> fst (create_data (with_audit_fault e a b) req u rd d)
       = fst (create_data (with_audit_fault e None None) req u rd d)
   \<and> eco_records (snd (create_data (with_audit_fault e a b) req u rd d))
       = eco_records (snd (create_data (with_audit_fault e None None) req u rd d))
   \<and> fst (update_data (with_audit_fault e a b) req u k ud d)
       = fst (update_data (with_audit_fault e None None) req u k ud d)
   \<and> eco_records (snd (update_data (with_audit_fault e a b) req u k ud d))
       = eco_records (snd (update_data (with_audit_fault e None None) req u k ud d))
   \<and> fst (delete_data (with_audit_fault e a b) req u k d)
       = fst (delete_data (with_audit_fault e None None) req u k d)
   \<and> eco_records (snd (delete_data (with_audit_fault e a b) req u k d))
       = eco_records (snd (delete_data (with_audit_fault e None None) req u k d))
   \<and> fst (clear_all_data (with_audit_fault e a b) req u c d)
       = fst (clear_all_data (with_audit_fault e None None) req u c d)
   \<and> eco_records (snd (clear_all_data (with_audit_fault e a b) req u c d))
       = eco_records (snd (clear_all_data (with_audit_fault e None None) req u c d))
   \<and> fst (import_data (with_audit_fault e a b) req u ir d)
       = fst (import_data (with_audit_fault e None None) req u ir d)
   \<and> eco_records (snd (import_data (with_audit_fault e a b) req u ir d))
       = eco_records (snd (import_data (with_audit_fault e None None) req u ir d))"
proof -
  have c: "fst (create_data_try (with_audit_fault e a b) req u rd d)
             = fst (create_data_try (with_audit_fault e None None) req u rd d)"
    by (simp add: create_audit)
  have up: "fst (update_data_try (with_audit_fault e a b) req u k ud d)
             = fst (update_data_try (with_audit_fault e None None) req u k ud d)"
    by (simp add: update_audit)
  have de: "fst (delete_data_try (with_audit_fault e a b) req u k d)
             = fst (delete_data_try (with_audit_fault e None None) req u k d)"
    by (simp add: delete_audit)
  have cl: "fst (clear_all_data_try (with_audit_fault e a b) req u c d)
             = fst (clear_all_data_try (with_audit_fault e None None) req u c d)"
    by (simp add: clear_audit)
  have im: "fst (import_data_try (with_audit_fault e a b) req u ir d)
             = fst (import_data_try (with_audit_fault e None None) req u ir d)"
    by (simp add: import_audit)
  show ?thesis
    using create_data_fst [OF c] update_data_fst [OF up] delete_data_fst [OF de]
      clear_all_data_fst [OF cl] import_data_fst [OF im]
    by (simp add: create_data_snd update_data_snd delete_data_snd clear_all_data_snd
        import_data_snd create_audit update_audit delete_audit clear_audit import_audit)
qed

theorem audit_failure_isolated_witness:
  "body_get (fst (create_data env_audit_down req_alice alice day2 db1)) ''success''
     = Some (PBool True)
   \<and> map rec_date (eco_records (snd (create_data env_audit_down req_alice alice day2 db1)))
       = [(2024, 1, 1), (2024, 1, 2)]
   \<and> operation_logs (snd (create_data env_audit_down req_alice alice day2 db1)) = []"
proof -
  show ?thesis
    using audit_failure_isolated [where e=env0 and a="Some (SQLAlchemyError ''connection lost'')"
        and b=None and req=req_alice and u=alice and rd=day2 and d=db1]
    apply (simp add: env_audit_down_def)
    apply (simp add: create_data_def create_data_try_def body_get_def query_first_def commit_def refresh_def
        Let_def log_operation_eq format_record_response_def calculate_efficiency_and_cost_def
        get_client_ip_def username_of_def py_truediv_def example_defs format_defs with_audit_fault_def)
    done
qed


section \<open>Duplicate dates on create\<close>

lemma find_date_Some:
  "dt \<in> rec_date ` set rows \<Longrightarrow> \<exists>r. find (\<lambda>r. rec_date r = dt) rows = Some r"
  by (induction rows) auto

lemma find_date_None:
  "dt \<notin> rec_date ` set rows \<Longrightarrow> find (\<lambda>r. rec_date r = dt) rows = None"
  by (induction rows) auto

text \<open>
  C1. When the lookup is answered and the date already has a record, the create
  operation returns the duplicate-date validation body and raises nothing; when the
  lookup finds no record and the commit then raises the duplicate-key integrity error,
  it returns the very same body. Neither path changes the stored state.
\<close>

theorem duplicate_date_paths_agree:
  "(fault e (Query 0) = None \<and> date rd \<in> rec_date ` set (eco_records d) \<longrightarrow>
      create_data e req u rd d =
        (Inr (PDict [(''success'', PBool False),
                     (''error'', PStr ''Validation failed''),
                     (''message'', PStr ''Date already exists''),
                     (''details'', PDict [(''field'', PStr ''date''),
                                          (''code'', PStr ''DUPLICATE_DATE'')])]), d))
   \<and> (fault e (Query 0) = None \<and> date rd \<notin> rec_date ` set (eco_records d)
        \<and> fault e Commit = Some (IntegrityError m) \<longrightarrow>
      create_data e req u rd d =
        (Inr (PDict [(''success'', PBool False),
                     (''error'', PStr ''Validation failed''),
                     (''message'', PStr ''Date already exists''),
                     (''details'', PDict [(''field'', PStr ''date''),
                                          (''code'', PStr ''DUPLICATE_DATE'')])]), d))"
proof (intro conjI impI)
  assume a: "fault e (Query 0) = None \<and> date rd \<in> rec_date ` set (eco_records d)"
  then obtain r where "find (\<lambda>r. rec_date r = date rd) (eco_records d) = Some r"
    using find_date_Some by blast
  with a show "create_data e req u rd d =
        (Inr (PDict [(''success'', PBool False),
                     (''error'', PStr ''Validation failed''),
                     (''message'', PStr ''Date already exists''),
                     (''details'', PDict [(''field'', PStr ''date''),
                                          (''code'', PStr ''DUPLICATE_DATE'')])]), d)"
    by (simp add: create_data_def create_data_try_def query_first_def)
next
  assume a: "fault e (Query 0) = None \<and> date rd \<notin> rec_date ` set (eco_records d)
        \<and> fault e Commit = Some (IntegrityError m)"
  then have "find (\<lambda>r. rec_date r = date rd) (eco_records d) = None"
    using find_date_None by blast
  with a show "create_data e req u rd d =
        (Inr (PDict [(''success'', PBool False),
                     (''error'', PStr ''Validation failed''),
                     (''message'', PStr ''Date already exists''),
                     (''details'', PDict [(''field'', PStr ''date''),
                                          (''code'', PStr ''DUPLICATE_DATE'')])]), d)"
    by (simp add: create_data_def create_data_try_def query_first_def commit_def)
qed

theorem duplicate_date_paths_agree_witness:
  "fault env0 (Query 0) = None \<and> date day1 \<in> rec_date ` set (eco_records db1)
   \<and> fault env_race (Query 0) = None \<and> date day1 \<notin> rec_date ` set (eco_records db0)
   \<and> fault env_race Commit = Some (IntegrityError ''Duplicate entry'')
   \<and> fst (create_data env0 req_alice alice day1 db1)
       = fst (create_data env_race req_alice alice day1 db0)
   \<and> snd (create_data env0 req_alice alice day1 db1) = db1
   \<and> snd (create_data env_race req_alice alice day1 db0) = db0"
proof -
  have h1: "fault env0 (Query 0) = None \<and> date day1 \<in> rec_date ` set (eco_records db1)"
    by (simp add: env0_def no_fault_def day1_def db1_def db0_def row1_def)
  have h2: "fault env_race (Query 0) = None \<and> date day1 \<notin> rec_date ` set (eco_records db0)
              \<and> fault env_race Commit = Some (IntegrityError ''Duplicate entry'')"
    by (simp add: env_race_def env0_def no_fault_def db0_def)
  show ?thesis
    using h1 h2
      duplicate_date_paths_agree [where e=env0 and rd=day1 and d=db1 and req=req_alice and u=alice]
      duplicate_date_paths_agree [where e=env_race and rd=day1 and d=db0
         and m="''Duplicate entry''" and req=req_alice and u=alice]
    by simp
qed

section \<open>Derived metrics and updates\<close>





lemma commit_no_pending:
  "fault e Commit = None \<Longrightarrow> commit e d w [] = Inr (d \<lparr> eco_records := w \<rparr>)"
  by (simp add: commit_def)

lemma update_fields_row:
  "fst (update_fields rd r0) =
     r0 \<lparr> power_consumption :=
            (case upd_powerConsumption rd of None \<Rightarrow> power_consumption r0 | Some v \<Rightarrow> v),
          drinking_water :=
            (case upd_drinkingWater rd of None \<Rightarrow> drinking_water r0 | Some v \<Rightarrow> v),
          irrigation_water :=
            (case upd_irrigationWater rd of None \<Rightarrow> irrigation_water r0 | Some v \<Rightarrow> v),
          electricity_price :=
            (case upd_electricityPrice rd of None \<Rightarrow> electricity_price r0 | Some v \<Rightarrow> v) \<rparr>"
  by (simp add: update_fields_def Let_def split: option.splits)




section \<open>Clearing all records\<close>

lemma clear_all_data_try_ok:
  assumes "fault e Count = None" "fault e BulkDelete = None" "fault e Commit = None"
  shows "clear_all_data_try e req u c d =
     (Inr (PDict
        [(''success'', PBool True),
         (''message'', PStr ''All data records deleted successfully''),
         (''data'', PDict
            [(''deletedCount'', PInt (int (length (eco_records d)))),
             (''warning'', PStr ''All system data has been permanently deleted'')])]),
      snd (log_operation e (d \<lparr> eco_records := [] \<rparr>) (uid u) ''DELETE'' ''eco_records''
             None None None
             (Some (''Cleared all data ('' @ str_nat (length (eco_records d)) @ '' records)''))
             (Some (get_client_ip req))))"
  using assms
  by (simp add: clear_all_data_try_def Let_def commit_no_pending log_operation_eq)

lemma clear_errors_iff: "ClearDataRequest_errors raw = [] \<longleftrightarrow> confirm raw = Some True"
  by (simp add: ClearDataRequest_errors_def field_error_def validate_confirm_def
      split: option.splits)

text \<open>
  C6. A clear-all request whose confirmation flag is absent or false never reaches the
  handler: it ends in an exception of the route and the state is unchanged. A confirmed
  request of an authenticated user, answered by the database, deletes every record,
  reports the number of records that were present, and appends exactly one audit entry,
  which names no record.
\<close>

theorem clear_all_needs_confirmation:
  "(confirm raw \<noteq> Some True \<longrightarrow>
      snd (delete_all_data e req raw d) = d
      \<and> (\<exists>x. fst (delete_all_data e req raw d) = Inl x)
      \<and> (\<forall>u. get_current_user e req d = Inr u \<longrightarrow>
             fst (delete_all_data e req raw d)
               = Inl (RequestValidationError (ClearDataRequest_errors raw))))
   \<and> (confirm raw = Some True \<and> get_current_user e req d = Inr u
        \<and> fault e Count = None \<and> fault e BulkDelete = None \<and> fault e Commit = None
        \<and> fault e LogWrite = None \<longrightarrow>
      eco_records (snd (delete_all_data e req raw d)) = []
      \<and> body_get (fst (delete_all_data e req raw d)) ''data''
           = Some (PDict
               [(''deletedCount'', PInt (int (length (eco_records d)))),
                (''warning'', PStr ''All system data has been permanently deleted'')])
      \<and> operation_logs (snd (delete_all_data e req raw d))
           = operation_logs d @
               [\<lparr> log_id = logs_seq d, user_id = uid u, action = ''DELETE'',
                   table_name = ''eco_records'', record_id = None, old_data = None,
                   new_data = None,
                   description = Some (''Cleared all data (''
                                         @ str_nat (length (eco_records d)) @ '' records)''),
                   ip_address = Some (get_client_ip req),
                   log_created_at = db_now e \<rparr>])"
proof (rule conjI; rule impI)
  assume a: "confirm raw \<noteq> Some True"
  then have ne: "ClearDataRequest_errors raw \<noteq> []" by (simp add: clear_errors_iff)
  then show "snd (delete_all_data e req raw d) = d
      \<and> (\<exists>x. fst (delete_all_data e req raw d) = Inl x)
      \<and> (\<forall>u. get_current_user e req d = Inr u \<longrightarrow>
             fst (delete_all_data e req raw d)
               = Inl (RequestValidationError (ClearDataRequest_errors raw)))"
    by (cases "ClearDataRequest_errors raw")
       (auto simp: delete_all_data_def split: sum.splits)
next
  assume a: "confirm raw = Some True \<and> get_current_user e req d = Inr u
        \<and> fault e Count = None \<and> fault e BulkDelete = None \<and> fault e Commit = None
        \<and> fault e LogWrite = None"
  then have ok: "ClearDataRequest_errors raw = []" by (simp add: clear_errors_iff)
  have r: "delete_all_data e req raw d = clear_all_data_try e req u True d"
    using a ok by (simp add: delete_all_data_def clear_all_data_def clear_all_data_try_ok)
  show "eco_records (snd (delete_all_data e req raw d)) = []
      \<and> body_get (fst (delete_all_data e req raw d)) ''data''
           = Some (PDict
               [(''deletedCount'', PInt (int (length (eco_records d)))),
                (''warning'', PStr ''All system data has been permanently deleted'')])
      \<and> operation_logs (snd (delete_all_data e req raw d))
           = operation_logs d @
               [\<lparr> log_id = logs_seq d, user_id = uid u, action = ''DELETE'',
                   table_name = ''eco_records'', record_id = None, old_data = None,
                   new_data = None,
                   description = Some (''Cleared all data (''
                                         @ str_nat (length (eco_records d)) @ '' records)''),
                   ip_address = Some (get_client_ip req),
                   log_created_at = db_now e \<rparr>]"
    using a by (simp add: r clear_all_data_try_ok log_operation_eq body_get_def)
qed

lemma get_current_user_alice: "get_current_user env0 req_alice db1 = Inr alice"
  by (simp add: get_current_user_def verify_token_def query_first_def example_defs)

theorem clear_all_needs_confirmation_witness:
  "confirm unconfirmed \<noteq> Some True
   \<and> snd (delete_all_data env0 req_alice unconfirmed db1) = db1
   \<and> fst (delete_all_data env0 req_alice unconfirmed db1)
       = Inl (RequestValidationError [(''confirm'', ''Confirm must be true to delete all data'')])
   \<and> confirm confirmed = Some True \<and> get_current_user env0 req_alice db1 = Inr alice
   \<and> fault env0 Count = None \<and> fault env0 BulkDelete = None \<and> fault env0 Commit = None
   \<and> fault env0 LogWrite = None
   \<and> eco_records (snd (delete_all_data env0 req_alice confirmed db1)) = []
   \<and> body_get (fst (delete_all_data env0 req_alice confirmed db1)) ''data''
       = Some (PDict [(''deletedCount'', PInt 1),
                      (''warning'', PStr ''All system data has been permanently deleted'')])
   \<and> map description (operation_logs (snd (delete_all_data env0 req_alice confirmed db1)))
       = [Some ''Cleared all data (1 records)'']
   \<and> map record_id (operation_logs (snd (delete_all_data env0 req_alice confirmed db1))) = [None]"
proof -
  have f: "fault env0 Count = None \<and> fault env0 BulkDelete = None \<and> fault env0 Commit = None
             \<and> fault env0 LogWrite = None"
    by (simp add: env0_def no_fault_def)
  have c: "confirm unconfirmed \<noteq> Some True" "confirm confirmed = Some True"
    by (simp_all add: unconfirmed_def confirmed_def)
  have e: "ClearDataRequest_errors unconfirmed
             = [(''confirm'', ''Confirm must be true to delete all data'')]"
    by (simp add: ClearDataRequest_errors_def unconfirmed_def field_error_def validate_confirm_def)
  have n: "length (eco_records db1) = 1" "operation_logs db1 = []"
    by (simp_all add: db1_def db0_def)
  show ?thesis
    using f c e get_current_user_alice
      clear_all_needs_confirmation [where raw=unconfirmed and e=env0 and req=req_alice and d=db1]
      clear_all_needs_confirmation [where raw=confirmed and e=env0 and req=req_alice and d=db1
        and u=alice]
    by (simp add: n format_defs)
qed

section \<open>Roles and record mutations\<close>

lemma find_uid_with_roles:
  "find (\<lambda>u. uid u = k) (map (\<lambda>u. u \<lparr> role := f u \<rparr>) us)
     = map_option (\<lambda>u. u \<lparr> role := f u \<rparr>) (find (\<lambda>u. uid u = k) us)"
  by (induction us) simp_all

lemma get_current_user_with_roles:
  "get_current_user e req (with_roles f d)
     = (case get_current_user e req d of Inl x \<Rightarrow> Inl x | Inr u \<Rightarrow> Inr (u \<lparr> role := f u \<rparr>))"
proof (cases "verify_token e (credentials req)")
  case (Inl x)
  then show ?thesis by (simp add: get_current_user_def)
next
  case (Inr t)
  show ?thesis
  proof (cases "fault e UserLookup")
    case None
    then show ?thesis
      using Inr
      by (cases "find (\<lambda>u. uid u = fst t) (users d)")
         (simp_all add: get_current_user_def query_first_def with_roles_def find_uid_with_roles)
  next
    case (Some x)
    then show ?thesis
      using Inr by (simp add: get_current_user_def query_first_def)
  qed
qed

lemma eco_records_with_roles: "eco_records (with_roles f d) = eco_records d"
  by (simp add: with_roles_def)

lemma import_step_role [simp]:
  "import_step e ow (u \<lparr> role := r \<rparr>) k rd st = import_step e ow u k rd st"
  by (simp add: import_step_def split: sum.splits option.splits)

lemma import_loop_role [simp]:
  "import_loop e ow (u \<lparr> role := r \<rparr>) k rds st = import_loop e ow u k rds st"
  by (induction rds arbitrary: k st) simp_all

lemma clear_all_with_roles:
  "fst (clear_all_data e req (u \<lparr> role := r \<rparr>) c (with_roles f d)) = fst (clear_all_data e req u c d)
   \<and> eco_records (snd (clear_all_data e req (u \<lparr> role := r \<rparr>) c (with_roles f d)))
       = eco_records (snd (clear_all_data e req u c d))"
  by (simp add: clear_all_data_def clear_all_data_try_def commit_def log_operation_eq Let_def
      with_roles_def split: option.splits)

text \<open>
  C10. No record mutation looks at the caller's role: each handler gives the same
  result for the same user under any role, and the clear-all route gives the same
  result and leaves the same records whatever roles the users table holds. A confirmed
  clear-all request of an authenticated user who is not an admin, answered by the
  database, succeeds and deletes every record.
\<close>

theorem record_mutations_ignore_role:
  "clear_all_data e req (u \<lparr> role := r \<rparr>) c d = clear_all_data e req u c d
   \<and> create_data e req (u \<lparr> role := r \<rparr>) rd d = create_data e req u rd d
   \<and> update_data e req (u \<lparr> role := r \<rparr>) k ud d = update_data e req u k ud d
   \<and> delete_data e req (u \<lparr> role := r \<rparr>) k d = delete_data e req u k d
   \<and> import_data e req (u \<lparr> role := r \<rparr>) ir d = import_data e req u ir d
   \<and> fst (delete_all_data e req raw (with_roles f d)) = fst (delete_all_data e req raw d)
   \<and> eco_records (snd (delete_all_data e req raw (with_roles f d)))
       = eco_records (snd (delete_all_data e req raw d))
   \<and> (get_current_user e req d = Inr u \<and> role u \<noteq> ''admin'' \<and> confirm raw = Some True
        \<and> fault e Count = None \<and> fault e BulkDelete = None \<and> fault e Commit = None \<longrightarrow>
      body_get (fst (delete_all_data e req raw d)) ''success'' = Some (PBool True)
      \<and> eco_records (snd (delete_all_data e req raw d)) = [])"
proof -
  have 1: "clear_all_data e req (u \<lparr> role := r \<rparr>) c d = clear_all_data e req u c d"
    by (simp add: clear_all_data_def clear_all_data_try_def Let_def
        split: sum.splits option.splits prod.splits)
  have 2: "create_data e req (u \<lparr> role := r \<rparr>) rd d = create_data e req u rd d"
    by (simp add: create_data_def create_data_try_def Let_def
        split: sum.splits option.splits prod.splits)
  have 3: "update_data e req (u \<lparr> role := r \<rparr>) k ud d = update_data e req u k ud d"
    by (simp add: update_data_def update_data_try_def Let_def
        split: sum.splits option.splits prod.splits)
  have 4: "delete_data e req (u \<lparr> role := r \<rparr>) k d = delete_data e req u k d"
    by (simp add: delete_data_def delete_data_try_def Let_def
        split: sum.splits option.splits prod.splits)
  have 5: "import_data e req (u \<lparr> role := r \<rparr>) ir d = import_data e req u ir d"
    by (simp add: import_data_def import_data_try_def Let_def
        split: sum.splits option.splits prod.splits)
  have 6: "fst (delete_all_data e req raw (with_roles f d)) = fst (delete_all_data e req raw d)
   \<and> eco_records (snd (delete_all_data e req raw (with_roles f d)))
       = eco_records (snd (delete_all_data e req raw d))"
  proof (cases "get_current_user e req d")
    case (Inl x)
    then show ?thesis
      by (simp add: delete_all_data_def get_current_user_with_roles eco_records_with_roles)
  next
    case (Inr v)
    show ?thesis
    proof (cases "ClearDataRequest_errors raw")
      case Nil
      then show ?thesis
        using Inr clear_all_with_roles [where e=e and req=req and u=v and r="f v"
            and c="confirm raw = Some True" and f=f and d=d]
        by (simp add: delete_all_data_def get_current_user_with_roles)
    next
      case (Cons a as)
      then show ?thesis
        using Inr
        by (simp add: delete_all_data_def get_current_user_with_roles eco_records_with_roles)
    qed
  qed
  have 7: "get_current_user e req d = Inr u \<and> role u \<noteq> ''admin'' \<and> confirm raw = Some True
        \<and> fault e Count = None \<and> fault e BulkDelete = None \<and> fault e Commit = None \<longrightarrow>
      body_get (fst (delete_all_data e req raw d)) ''success'' = Some (PBool True)
      \<and> eco_records (snd (delete_all_data e req raw d)) = []"
  proof (rule impI)
    assume a: "get_current_user e req d = Inr u \<and> role u \<noteq> ''admin'' \<and> confirm raw = Some True
        \<and> fault e Count = None \<and> fault e BulkDelete = None \<and> fault e Commit = None"
    then have ok: "ClearDataRequest_errors raw = []" by (simp add: clear_errors_iff)
    show "body_get (fst (delete_all_data e req raw d)) ''success'' = Some (PBool True)
      \<and> eco_records (snd (delete_all_data e req raw d)) = []"
      using a ok
      by (simp add: delete_all_data_def clear_all_data_def clear_all_data_try_ok body_get_def)
  qed
  show ?thesis
    using 1 2 3 4 5 6 7 by (intro conjI) simp_all
qed

theorem record_mutations_ignore_role_witness:
  "get_current_user env0 req_alice db1 = Inr alice \<and> role alice \<noteq> ''admin''
   \<and> confirm confirmed = Some True
   \<and> fault env0 Count = None \<and> fault env0 BulkDelete = None \<and> fault env0 Commit = None
   \<and> body_get (fst (delete_all_data env0 req_alice confirmed db1)) ''success'' = Some (PBool True)
   \<and> eco_records (snd (delete_all_data env0 req_alice confirmed db1)) = []
   \<and> fst (delete_all_data env0 req_alice confirmed (with_roles (\<lambda>u. ''admin'') db1))
       = fst (delete_all_data env0 req_alice confirmed db1)"
proof -
  have h: "role alice \<noteq> ''admin''" "confirm confirmed = Some True"
    "fault env0 Count = None" "fault env0 BulkDelete = None" "fault env0 Commit = None"
    by (simp_all add: alice_def confirmed_def env0_def no_fault_def)
  show ?thesis
    using h get_current_user_alice
      record_mutations_ignore_role [where e=env0 and req=req_alice and d=db1 and u=alice
        and raw=confirmed and f="\<lambda>u. ''admin''"]
    by simp
qed

section \<open>The state invariant\<close>

lemma table_ok_db:
  "table_ok (records_seq d) (eco_records d) \<longleftrightarrow> state_invariant d \<and> primary_keys_ok d"
  by (auto simp: table_ok_def state_invariant_def primary_keys_ok_def)

lemma create_errors_nil: "EcoRecordCreate_errors c = [] \<longleftrightarrow> \<not> negative_create c"
  by (auto simp: EcoRecordCreate_errors_def field_error_def validate_positive_def
      negative_create_def split: if_splits)

lemma update_errors_nil: "EcoRecordUpdate_errors c = [] \<longleftrightarrow> \<not> negative_update c"
  by (auto simp: EcoRecordUpdate_errors_def field_error_def validate_positive_opt_def
      negative_update_def negative_opt_def split: if_splits option.splits)

lemma import_errors_nil:
  "EcoRecordImport_errors im = [] \<longleftrightarrow> (\<forall>c \<in> set (records im). \<not> negative_create c)"
  by (simp add: EcoRecordImport_errors_def create_errors_nil)

lemma insert_records_ok:
  "insert_records now ps tbl s = Inr (tbl', s') \<Longrightarrow> table_ok s tbl \<Longrightarrow> list_all pending_ok ps
   \<Longrightarrow> table_ok s' tbl'"
proof (induction ps arbitrary: tbl s)
  case Nil
  then show ?case by simp
next
  case (Cons p ps)
  from Cons.prems(1) have fresh: "n_date p \<notin> set (map rec_date tbl)"
    by (auto split: if_splits)
  let ?row = "\<lparr> rec_id = s, rec_date = n_date p,
                 power_consumption = n_power_consumption p,
                 drinking_water = n_drinking_water p,
                 irrigation_water = n_irrigation_water p,
                 electricity_price = n_electricity_price p,
                 created_by = n_created_by p, updated_by = None,
                 created_at = now, updated_at = now \<rparr>"
  from Cons.prems(1) fresh have rest: "insert_records now ps (tbl @ [?row]) (s + 1) = Inr (tbl', s')"
    by simp
  have "table_ok (s + 1) (tbl @ [?row])"
    using Cons.prems(2,3) fresh
    by (auto simp: table_ok_def no_negative_def pending_ok_def list_all_iff)
  with Cons.IH [OF rest] Cons.prems(3) show ?case by simp
qed

lemma commit_ok:
  "commit e d w ps = Inr d1 \<Longrightarrow> table_ok (records_seq d) w \<Longrightarrow> list_all pending_ok ps
   \<Longrightarrow> table_ok (records_seq d1) (eco_records d1)"
  by (auto simp: commit_def split: option.splits sum.splits dest: insert_records_ok)

lemma replace_ok:
  assumes "table_ok s rows" and "r0 \<in> set rows" and "rec_id n = rec_id r0"
    and "rec_date n = rec_date r0" and "no_negative n"
  shows "table_ok s (map (\<lambda>r. if rec_id r = rec_id r0 then n else r) rows)"
proof -
  let ?g = "\<lambda>r. if rec_id r = rec_id r0 then n else r"
  have same: "\<And>r. r \<in> set rows \<Longrightarrow> rec_id r = rec_id r0 \<Longrightarrow> r = r0"
    using assms(1,2) by (auto simp: table_ok_def distinct_map inj_on_def)
  have d: "map rec_date (map ?g rows) = map rec_date rows"
    using same assms(4) by (auto simp: comp_def)
  have i: "map rec_id (map ?g rows) = map rec_id rows"
    using assms(3) by (auto simp: comp_def)
  have "list_all no_negative (map ?g rows)"
    using assms(1,5) by (auto simp: table_ok_def list_all_iff)
  moreover have "list_all (\<lambda>r. rec_id r < s) (map ?g rows)"
    using assms(1,2,3) by (auto simp: table_ok_def list_all_iff)
  moreover have "distinct (map rec_date (map ?g rows))" "distinct (map rec_id (map ?g rows))"
    using assms(1) unfolding d i by (simp_all add: table_ok_def)
  ultimately show ?thesis
    unfolding table_ok_def by blast
qed

lemma find_some_set: "find P xs = Some x \<Longrightarrow> x \<in> set xs \<and> P x"
  by (induction xs) (auto split: if_splits)

lemma create_data_ok:
  assumes "table_ok (records_seq d) (eco_records d)" and "\<not> negative_create rd"
  shows "table_ok (records_seq (snd (create_data e req u rd d)))
           (eco_records (snd (create_data e req u rd d)))"
proof -
  have p: "list_all pending_ok
             [\<lparr> n_date = date rd, n_power_consumption = powerConsumption rd,
                 n_drinking_water = drinkingWater rd,
                 n_irrigation_water = irrigationWater rd,
                 n_electricity_price = electricityPrice rd, n_created_by = uid u \<rparr>]"
    using assms(2) by (simp add: pending_ok_def negative_create_def)
  show ?thesis
    using assms(1) commit_ok [OF _ assms(1) p, of e]
    by (auto simp: create_data_snd create_data_try_def Let_def
        split: sum.splits option.splits)
qed

lemma update_fields_no_negative:
  "no_negative r0 \<Longrightarrow> \<not> negative_update rd \<Longrightarrow> no_negative (fst (update_fields rd r0))"
  by (auto simp: update_fields_row no_negative_def negative_update_def negative_opt_def
      split: option.splits)

lemma update_data_ok:
  assumes t: "table_ok (records_seq d) (eco_records d)" and v: "\<not> negative_update rd"
  shows "table_ok (records_seq (snd (update_data e req u rid rd d)))
           (eco_records (snd (update_data e req u rid rd d)))"
proof (cases "query_first e (Query 0) (\<lambda>r. rec_id r = rid) (eco_records d)")
  case (Inl x)
  then show ?thesis using t by (simp add: update_data_snd update_data_try_def)
next
  case (Inr found)
  show ?thesis
  proof (cases found)
    case None
    then show ?thesis using t Inr by (simp add: update_data_snd update_data_try_def)
  next
    case (Some r0)
    let ?n = "(fst (update_fields rd r0)) \<lparr> updated_by := Some (uid u), updated_at := utcnow e \<rparr>"
    from Inr Some have "find (\<lambda>r. rec_id r = rid) (eco_records d) = Some r0"
      by (auto simp: query_first_def split: option.splits)
    then have mem: "r0 \<in> set (eco_records d)"
      using find_some_set by fastforce
    then have "no_negative r0" using t by (auto simp: table_ok_def list_all_iff)
    then have nn: "no_negative ?n"
      using update_fields_no_negative [OF _ v, of r0] by (simp add: no_negative_def)
    have w: "table_ok (records_seq d)
               (map (\<lambda>r. if rec_id r = rec_id r0 then ?n else r) (eco_records d))"
      using replace_ok [OF t mem _ _ nn] by (simp add: update_fields_row)
    show ?thesis
      using t Inr Some commit_ok [where e=e and d=d and ps="[]", OF _ w]
      by (auto simp: update_data_snd update_data_try_def Let_def log_operation_eq
          split: sum.splits option.splits)
  qed
qed

lemma import_step_ok:
  assumes "import_state_ok s st" and "\<not> negative_create rd"
  shows "import_state_ok s (import_step e ow u k rd st)"
proof (cases "query_first e (Query k) (\<lambda>r. rec_date r = date rd) (work st)")
  case (Inl x)
  then show ?thesis using assms(1) by (simp add: import_step_def import_state_ok_def)
next
  case (Inr found)
  show ?thesis
  proof (cases found)
    case None
    then show ?thesis
      using assms Inr
      by (simp add: import_step_def import_state_ok_def pending_ok_def negative_create_def)
  next
    case (Some r0)
    let ?n = "r0 \<lparr> power_consumption := powerConsumption rd,
                   drinking_water := drinkingWater rd,
                   irrigation_water := irrigationWater rd,
                   electricity_price := electricityPrice rd,
                   updated_by := Some (uid u), updated_at := utcnow e \<rparr>"
    from Inr Some have "find (\<lambda>r. rec_date r = date rd) (work st) = Some r0"
      by (auto simp: query_first_def split: option.splits)
    then have mem: "r0 \<in> set (work st)"
      using find_some_set by fastforce
    have nn: "no_negative ?n"
      using assms(2) by (simp add: no_negative_def negative_create_def)
    have t: "table_ok s (work st)" using assms(1) by (simp add: import_state_ok_def)
    have "table_ok s (map (\<lambda>r. if rec_id r = rec_id r0 then ?n else r) (work st))"
      using replace_ok [OF t mem _ _ nn] by simp
    then show ?thesis
      using assms(1) Inr Some by (simp add: import_step_def import_state_ok_def)
  qed
qed

lemma import_loop_ok:
  "import_state_ok s st \<Longrightarrow> \<forall>c \<in> set rds. \<not> negative_create c
   \<Longrightarrow> import_state_ok s (import_loop e ow u k rds st)"
  by (induction rds arbitrary: k st) (simp_all add: import_step_ok)

lemma import_data_ok:
  assumes t: "table_ok (records_seq d) (eco_records d)"
    and v: "\<forall>c \<in> set (records im). \<not> negative_create c"
  shows "table_ok (records_seq (snd (import_data e req u im d)))
           (eco_records (snd (import_data e req u im d)))"
proof -
  let ?st = "import_loop e (overwriteExisting im) u 0 (records im)
               \<lparr> work = eco_records d, pending = [], imported = 0, updated = 0,
                  skipped = 0, errors = [] \<rparr>"
  have "import_state_ok (records_seq d) ?st"
    using t v by (intro import_loop_ok) (simp_all add: import_state_ok_def)
  then have w: "table_ok (records_seq d) (work ?st)" and p: "list_all pending_ok (pending ?st)"
    by (simp_all add: import_state_ok_def)
  show ?thesis
    using t commit_ok [OF _ w p, of e]
    by (auto simp: import_data_snd import_data_try_def Let_def log_operation_eq
        split: sum.splits option.splits)
qed

text \<open>
  C4. From a state with at most one record per date and no negative quantity (and with
  the primary keys the database maintains), the create, update and batch import routes
  lead to a state with at most one record per date and no negative quantity (and with
  such primary keys again), whatever the database raises on the way. A request with a negative quantity ends at the
  route, in the caller's authentication error or in the validation error, and the state
  is unchanged.
\<close>

theorem mutations_preserve_invariant:
  assumes "state_invariant d" and "primary_keys_ok d"
  shows "state_invariant (snd (post_data e req c d))
     \<and> primary_keys_ok (snd (post_data e req c d))
     \<and> state_invariant (snd (put_data e req k up d))
     \<and> primary_keys_ok (snd (put_data e req k up d))
     \<and> state_invariant (snd (post_data_import e req im d))
     \<and> primary_keys_ok (snd (post_data_import e req im d))
     \<and> (negative_create c \<longrightarrow>
          post_data e req c d =
            (case get_current_user e req d of
               Inl x \<Rightarrow> (Inl x, d)
             | Inr cu \<Rightarrow> (Inl (RequestValidationError (EcoRecordCreate_errors c)), d)))
     \<and> (negative_update up \<longrightarrow>
          put_data e req k up d =
            (case get_current_user e req d of
               Inl x \<Rightarrow> (Inl x, d)
             | Inr cu \<Rightarrow> (Inl (RequestValidationError (EcoRecordUpdate_errors up)), d)))
     \<and> ((\<exists>x \<in> set (records im). negative_create x) \<longrightarrow>
          post_data_import e req im d =
            (case get_current_user e req d of
               Inl x \<Rightarrow> (Inl x, d)
             | Inr cu \<Rightarrow> (Inl (RequestValidationError (EcoRecordImport_errors im)), d)))"
proof -
  have t: "table_ok (records_seq d) (eco_records d)"
    using assms by (simp add: table_ok_db)
  have 1: "state_invariant (snd (post_data e req c d)) \<and> primary_keys_ok (snd (post_data e req c d))"
  proof (cases "get_current_user e req d")
    case (Inl x)
    then show ?thesis using assms by (simp add: post_data_def)
  next
    case (Inr cu)
    show ?thesis
    proof (cases "EcoRecordCreate_errors c")
      case Nil
      then have "\<not> negative_create c" by (simp add: create_errors_nil)
      from create_data_ok [OF t this, of e req cu] show ?thesis
        using Inr Nil by (simp add: post_data_def table_ok_db)
    next
      case (Cons a as)
      then show ?thesis using Inr assms by (simp add: post_data_def)
    qed
  qed
  have 2: "state_invariant (snd (put_data e req k up d)) \<and> primary_keys_ok (snd (put_data e req k up d))"
  proof (cases "get_current_user e req d")
    case (Inl x)
    then show ?thesis using assms by (simp add: put_data_def)
  next
    case (Inr cu)
    show ?thesis
    proof (cases "EcoRecordUpdate_errors up")
      case Nil
      then have "\<not> negative_update up" by (simp add: update_errors_nil)
      from update_data_ok [OF t this, of e req cu k] show ?thesis
        using Inr Nil by (simp add: put_data_def table_ok_db)
    next
      case (Cons a as)
      then show ?thesis using Inr assms by (simp add: put_data_def)
    qed
  qed
  have 3: "state_invariant (snd (post_data_import e req im d)) \<and> primary_keys_ok (snd (post_data_import e req im d))"
  proof (cases "get_current_user e req d")
    case (Inl x)
    then show ?thesis using assms by (simp add: post_data_import_def)
  next
    case (Inr cu)
    show ?thesis
    proof (cases "EcoRecordImport_errors im")
      case Nil
      then have "\<forall>x \<in> set (records im). \<not> negative_create x" by (simp add: import_errors_nil)
      from import_data_ok [OF t this, of e req cu] show ?thesis
        using Inr Nil by (simp add: post_data_import_def table_ok_db)
    next
      case (Cons a as)
      then show ?thesis using Inr assms by (simp add: post_data_import_def)
    qed
  qed
  have 4: "negative_create c \<longrightarrow>
          post_data e req c d =
            (case get_current_user e req d of
               Inl x \<Rightarrow> (Inl x, d)
             | Inr cu \<Rightarrow> (Inl (RequestValidationError (EcoRecordCreate_errors c)), d))"
    using create_errors_nil [of c]
    by (cases "EcoRecordCreate_errors c") (auto simp: post_data_def split: sum.splits)
  have 5: "negative_update up \<longrightarrow>
          put_data e req k up d =
            (case get_current_user e req d of
               Inl x \<Rightarrow> (Inl x, d)
             | Inr cu \<Rightarrow> (Inl (RequestValidationError (EcoRecordUpdate_errors up)), d))"
    using update_errors_nil [of up]
    by (cases "EcoRecordUpdate_errors up") (auto simp: put_data_def split: sum.splits)
  have 6: "(\<exists>x \<in> set (records im). negative_create x) \<longrightarrow>
          post_data_import e req im d =
            (case get_current_user e req d of
               Inl x \<Rightarrow> (Inl x, d)
             | Inr cu \<Rightarrow> (Inl (RequestValidationError (EcoRecordImport_errors im)), d))"
    using import_errors_nil [of im]
    by (cases "EcoRecordImport_errors im") (auto simp: post_data_import_def split: sum.splits)
  show ?thesis
    using 1 2 3 by (intro conjI 4 5 6) simp_all
qed

theorem mutations_preserve_invariant_witness:
  "state_invariant db1 \<and> primary_keys_ok db1
   \<and> state_invariant (snd (post_data env0 req_alice day2 db1))
   \<and> state_invariant (snd (put_data env0 req_alice 1 power_only db1))
   \<and> negative_create day_neg
   \<and> post_data env0 req_alice day_neg db1
       = (Inl (RequestValidationError [(''powerConsumption'', ''Value must be positive'')]), db1)
   \<and> negative_update upd_neg
   \<and> put_data env0 req_alice 1 upd_neg db1
       = (Inl (RequestValidationError [(''drinkingWater'', ''Value must be positive'')]), db1)
   \<and> (\<exists>x \<in> set (records import_neg). negative_create x)
   \<and> post_data_import env0 req_alice import_neg db1
       = (Inl (RequestValidationError [(''powerConsumption'', ''Value must be positive'')]), db1)"
proof -
  have i: "state_invariant db1" "primary_keys_ok db1"
    by (simp_all add: state_invariant_def primary_keys_ok_def no_negative_def db1_def db0_def
        row1_def)
  have n: "negative_create day_neg" "negative_update upd_neg"
    "\<exists>x \<in> set (records import_neg). negative_create x"
    by (simp_all add: negative_create_def negative_update_def negative_opt_def day_neg_def
        upd_neg_def import_neg_def)
  have e: "EcoRecordCreate_errors day_neg = [(''powerConsumption'', ''Value must be positive'')]"
    "EcoRecordUpdate_errors upd_neg = [(''drinkingWater'', ''Value must be positive'')]"
    "EcoRecordImport_errors import_neg = [(''powerConsumption'', ''Value must be positive'')]"
    by (simp_all add: EcoRecordCreate_errors_def EcoRecordUpdate_errors_def
        EcoRecordImport_errors_def field_error_def validate_positive_def
        validate_positive_opt_def day_neg_def upd_neg_def import_neg_def day2_def)
  show ?thesis
    using i n e get_current_user_alice
      mutations_preserve_invariant [OF i, where e=env0 and req=req_alice and c=day2
        and k=1 and up=power_only and im=import_neg]
      mutations_preserve_invariant [OF i, where e=env0 and req=req_alice and c=day_neg
        and k=1 and up=upd_neg and im=import_neg]
    by simp
qed

section \<open>Batch import\<close>

lemma import_step_counts:
  "imported (import_step e ow u k rd st) + updated (import_step e ow u k rd st)
     + skipped (import_step e ow u k rd st) + length (errors (import_step e ow u k rd st))
   = Suc (imported st + updated st + skipped st + length (errors st))"
  by (simp add: import_step_def split: sum.splits option.splits)

lemma import_loop_counts:
  "imported (import_loop e ow u k rds st) + updated (import_loop e ow u k rds st)
     + skipped (import_loop e ow u k rds st) + length (errors (import_loop e ow u k rds st))
   = length rds + (imported st + updated st + skipped st + length (errors st))"
  by (induction rds arbitrary: k st) (simp_all add: import_step_counts)

lemma get_current_user_alice0: "get_current_user env0 req_alice db0 = Inr alice"
  by (simp add: get_current_user_def verify_token_def query_first_def example_defs)

text \<open>Whenever the import returns a body, its four counts add up to the input length.\<close>

lemma import_data_counts:
  assumes "import_data e req u im d = (Inr body, d')"
  shows "\<exists>st :: import_state. imported st + updated st + skipped st + length (errors st) = length (records im)
            \<and> dict_get body ''data''
                = Some (PDict [(''imported'', PInt (int (imported st))),
                               (''updated'', PInt (int (updated st))),
                               (''skipped'', PInt (int (skipped st))),
                               (''errors'', PList (map PStr (errors st)))])"
proof -
  let ?st = "import_loop e (overwriteExisting im) u 0 (records im)
               \<lparr> work = eco_records d, pending = [], imported = 0, updated = 0,
                  skipped = 0, errors = [] \<rparr>"
  have c: "imported ?st + updated ?st + skipped ?st + length (errors ?st) = length (records im)"
    using import_loop_counts [of e "overwriteExisting im" u 0 "records im"] by simp
  have b: "dict_get body ''data''
          = Some (PDict [(''imported'', PInt (int (imported ?st))),
                         (''updated'', PInt (int (updated ?st))),
                         (''skipped'', PInt (int (skipped ?st))),
                         (''errors'', PList (map PStr (errors ?st)))])"
    using assms
    by (auto simp: import_data_def import_data_try_def Let_def log_operation_eq
        split: sum.splits prod.splits)
  show ?thesis
    by (rule exI [of _ ?st]) (intro conjI c b)
qed

text \<open>
  C3. A batch that names the same new date twice: neither lookup sees the other
  record, both are counted as imported, the commit raises on the second insert, and the
  whole request ends in a 500 with nothing imported.
\<close>

theorem import_same_new_date_twice:
  "post_data_import env0 req_alice import_dup db0
     = (Inl (HTTPException 500 ''Failed to import data''), db0)
   \<and> imported (import_loop env0 True alice 0 [day2, day2]
        \<lparr> work = [], pending = [], imported = 0, updated = 0, skipped = 0, errors = [] \<rparr>) = 2"
proof -
  have v: "EcoRecordImport_errors import_dup = []"
    by (simp add: EcoRecordImport_errors_def EcoRecordCreate_errors_def field_error_def
        validate_positive_def import_dup_def day2_def)
  let ?p = "\<lparr> n_date = date day2, n_power_consumption = powerConsumption day2,
               n_drinking_water = drinkingWater day2,
               n_irrigation_water = irrigationWater day2,
               n_electricity_price = electricityPrice day2, n_created_by = uid alice \<rparr>"
  have l: "import_loop env0 True alice 0 [day2, day2]
        \<lparr> work = [], pending = [], imported = 0, updated = 0, skipped = 0, errors = [] \<rparr>
       = \<lparr> work = [], pending = [?p, ?p], imported = 2, updated = 0, skipped = 0, errors = [] \<rparr>"
    by (simp add: import_step_def query_first_def env0_def no_fault_def)
  have c: "commit env0 db0 [] [?p, ?p]
           = Inl (IntegrityError ''Duplicate entry for key eco_records.date'')"
    by (simp add: commit_def env0_def no_fault_def)
  have r: "eco_records db0 = []" by (simp add: db0_def)
  have "import_data env0 req_alice alice import_dup db0
          = (Inl (HTTPException 500 ''Failed to import data''), db0)"
    by (simp add: import_data_def import_data_try_def Let_def import_dup_def r l c
        del: import_loop.simps)
  then show ?thesis
    by (simp add: post_data_import_def get_current_user_alice0 v l del: import_loop.simps)
qed

section \<open>The audit trail query\<close>

lemma get_logs_forbidden:
  "get_current_user e req d = Inr u \<Longrightarrow> role u \<noteq> ''admin''
   \<Longrightarrow> get_logs e req q d = Inl (HTTPException 403 ''Access denied. Admin only.'')"
  by (simp add: get_logs_def get_current_admin_user_def)

lemma selected_logs_newest_first: "sorted (rev (map log_created_at (selected_logs q d)))"
  by (simp add: selected_logs_def Let_def rev_map)

lemma selected_logs_filters:
  assumes "l \<in> set (selected_logs q d)"
  shows "(\<forall>s. startDate q = Some s \<longrightarrow> midnight s \<le> log_created_at l)
       \<and> (\<forall>t. endDate q = Some t \<longrightarrow> log_created_at l \<le> midnight t)
       \<and> (\<forall>k. userId q = Some k \<longrightarrow> k \<noteq> 0 \<longrightarrow> user_id l = k)
       \<and> (\<forall>a. action_filter q = Some a \<longrightarrow> a \<noteq> [] \<longrightarrow> action l = a)"
  using assms by (auto simp: selected_logs_def Let_def split: option.splits if_splits)

lemma get_current_user_root: "get_current_user env0 req_root db_logs = Inr root"
  by (simp add: get_current_user_def verify_token_def query_first_def example_defs db_logs_def)

text \<open>
  C8. An admin asks for the logs of user 0. The handler tests the parameter's truth
  value, so the filter is not applied, and the answer holds a log of user 1.
\<close>

theorem logs_user_filter_zero_is_dropped:
  "get_logs env0 req_root q_user0 db_logs
     = Inr (PDict
         [(''success'', PBool True),
          (''data'', PDict
             [(''logs'', PList [format_log (users db_logs) log1]),
              (''pagination'', PDict
                 [(''currentPage'', PInt 1), (''totalPages'', PInt 1), (''totalCount'', PInt 1),
                  (''hasNext'', PBool False), (''hasPrev'', PBool False)])])])
   \<and> userId q_user0 = Some 0
   \<and> dict_get (format_log (users db_logs) log1) ''userId'' = Some (PInt 1)"
proof -
  have s: "selected_logs q_user0 db_logs = [log1]"
    by (simp add: selected_logs_def Let_def q_user0_def db_logs_def example_defs log1_def)
  have v: "logs_query_errors q_user0 = []"
    by (simp add: logs_query_errors_def q_user0_def)
  have a: "get_current_admin_user env0 req_root db_logs = Inr root"
    by (simp add: get_current_admin_user_def get_current_user_root) (simp add: root_def)
  have p: "page q_user0 = 1" "limit q_user0 = 20" "userId q_user0 = Some 0"
    by (simp_all add: q_user0_def)
  have f: "fault env0 Count = None" "fault env0 (Query 0) = None"
    by (simp_all add: env0_def no_fault_def)
  have "get_operation_logs env0 root q_user0 db_logs
     = Inr (PDict
         [(''success'', PBool True),
          (''data'', PDict
             [(''logs'', PList [format_log (users db_logs) log1]),
              (''pagination'', PDict
                 [(''currentPage'', PInt 1), (''totalPages'', PInt 1), (''totalCount'', PInt 1),
                  (''hasNext'', PBool False), (''hasPrev'', PBool False)])])])"
    by (simp add: get_operation_logs_def get_operation_logs_try_def Let_def s p f)
  moreover have "dict_get (format_log (users db_logs) log1) ''userId'' = Some (PInt 1)"
    by (simp add: format_log_def log1_def)
  ultimately show ?thesis
    by (simp add: get_logs_def a v p)
qed

section \<open>Validation failures\<close>








end
